theory Spec2Isabelle
  imports Complex_Main "HOL-Library.Char_ord" "HOL-Library.List_Lexorder"
begin

unbundle bit_operations_syntax

section \<open>JavaScript helpers\<close>

text \<open>
  Strings are byte strings (\<open>char list\<close>); the keywords the code looks for are ASCII.
  JavaScript numbers that hold confidences and scores are modelled as reals, counters and
  lengths as integers or naturals.
\<close>

definition lower_char :: "char \<Rightarrow> char" where
  "lower_char c =
     (if CHR ''A'' \<le> c \<and> c \<le> CHR ''Z'' then char_of (of_char c + (32::nat)) else c)"

definition toLowerCase :: "string \<Rightarrow> string" where
  "toLowerCase s = map lower_char s"

fun startsWith :: "string \<Rightarrow> string \<Rightarrow> bool" where
  "startsWith s [] = True"
| "startsWith [] (p # ps) = False"
| "startsWith (c # cs) (p # ps) = (c = p \<and> startsWith cs ps)"

text \<open>\<open>s.includes(sub)\<close> on strings.\<close>

fun str_includes :: "string \<Rightarrow> string \<Rightarrow> bool" where
  "str_includes [] sub = (sub = [])"
| "str_includes (c # cs) sub = (startsWith (c # cs) sub \<or> str_includes cs sub)"

text \<open>\<open>xs.join(sep)\<close> on an array of strings.\<close>

fun join :: "string \<Rightarrow> string list \<Rightarrow> string" where
  "join sep [] = []"
| "join sep [x] = x"
| "join sep (x # y # ys) = x @ sep @ join sep (y # ys)"

text \<open>
  Truthiness of an optional string, and \<open>a || b\<close> on optional strings: \<open>undefined\<close> and
  the empty string are falsy.
\<close>

definition truthy :: "string option \<Rightarrow> bool" where
  "truthy v = (case v of None \<Rightarrow> False | Some s \<Rightarrow> s \<noteq> [])"

definition str_or :: "string option \<Rightarrow> string \<Rightarrow> string" where
  "str_or a b = (case a of None \<Rightarrow> b | Some s \<Rightarrow> if s = [] then b else s)"

text \<open>\<open>Math.round\<close>: the nearest integer, halves towards plus infinity.\<close>

definition js_round :: "real \<Rightarrow> int" where
  "js_round x = \<lfloor>x + 1 / 2\<rfloor>"

section \<open>Data model (src/types/index.ts)\<close>

text \<open>
  A \<open>number\<close> that is not a count is a real number, and sums and products of such
  numbers are exact, where the engine rounds every result to the nearest binary64 value.
  The two differ by the rounding only; a comparison can come out differently only where
  the exact and the rounded operands lie on different sides of each other, as at a tie:
  \<open>0.75 * 1.2\<close> is \<open>0.9\<close> here and \<open>0.8999999999999999\<close> in the engine.
\<close>

record source =
  src_title :: string
  src_url :: "string option"
  src_date :: "string option"

record finding =
  title :: string
  detail :: string
  confidence :: real
  tags :: "string list"
  sources :: "source list"
  metadata :: "int option"

record news_item =
  news_title :: string
  news_url :: "string option"
  news_date :: "string option"

record job_item =
  job_title :: string
  job_url :: "string option"
  job_text :: "string option"

record tech_signal =
  tech_name :: "string option"
  tech_product :: "string option"
  tech_slug :: "string option"

record social_signal =
  platform :: string
  social_url :: string
  followers :: "real option"

record procurement_record =
  agency :: string
  amount :: "real option"
  proc_date :: "string option"
  description :: "string option"

record archive_snapshot =
  arch_url :: string
  snapshotUrl :: string
  arch_date :: string

record evidence_item =
  ev_url :: string
  ev_title :: string

record corp_profile =
  corp_name :: string
  corp_domain :: "string option"

record osint_context =
  companyName :: string
  domain :: string
  homepageUrl :: string
  corp :: "corp_profile option"
  news :: "news_item list"
  jobs :: "job_item list"
  tech :: "tech_signal list"
  social :: "social_signal list"
  procurement :: "procurement_record list"
  archives :: "archive_snapshot list"
  evidence :: "evidence_item list"

section \<open>Deterministic scoring (horsemen/analyzers/automation-potential.ts)\<close>

datatype level = HighPotential | ModeratePotential | LowPotential

record automation_score =
  score :: real
  as_confidence :: real
  as_level :: level

text \<open>\<open>score += pts; factors++\<close> on the pair of running totals.\<close>

definition add_factor :: "real \<Rightarrow> real \<times> nat \<Rightarrow> real \<times> nat" where
  "add_factor pts acc = (fst acc + pts, Suc (snd acc))"

definition hasModernTech :: "osint_context \<Rightarrow> bool" where
  "hasModernTech context =
     (\<exists>t \<in> set (tech context). \<exists>keyword \<in> set [''cloud'', ''saas'', ''api'', ''automation''].
        str_includes (toLowerCase (str_or (tech_name t) (str_or (tech_product t) []))) keyword)"

definition hasRepetitiveTasks :: "finding list \<Rightarrow> bool" where
  "hasRepetitiveTasks findings =
     (\<exists>f \<in> set findings.
        str_includes (toLowerCase (detail f)) ''repetitive'' \<or>
        str_includes (toLowerCase (detail f)) ''manual'' \<or>
        str_includes (toLowerCase (detail f)) ''high volume'')"

text \<open>\<open>(p.amount || 0) > 100000\<close>: a missing amount counts as 0.\<close>

definition hasHighValueContracts :: "osint_context \<Rightarrow> bool" where
  "hasHighValueContracts context =
     (\<exists>p \<in> set (procurement context). (case amount p of None \<Rightarrow> 0 | Some a \<Rightarrow> a) > 100000)"

text \<open>The five factors, accumulated in the order of the source.\<close>

definition score_factors :: "osint_context \<Rightarrow> finding list \<Rightarrow> real \<times> nat" where
  "score_factors context findings =
     (let acc0 = (0, 0);
          automationOpportunities =
            length (filter (\<lambda>f. ''automation-opportunity'' \<in> set (tags f)) findings);
          acc1 = (if automationOpportunities > 0
                  then add_factor (min (real automationOpportunities * 0.5) 2) acc0 else acc0);
          hasGrowthSignals = (\<exists>f \<in> set findings. ''growth'' \<in> set (tags f));
          hasMultipleJobs = (length (jobs context) \<ge> 5);
          acc2 = (if hasGrowthSignals \<or> hasMultipleJobs then add_factor 1.5 acc1 else acc1);
          acc3 = (if hasRepetitiveTasks findings then add_factor 2 acc2 else acc2);
          hasTechStack = (length (tech context) > 0);
          acc4 = (if hasTechStack
                  then add_factor (if hasModernTech context then 2 else 1) acc3 else acc3);
          hasProcurement = (length (procurement context) > 0);
          acc5 = (if hasProcurement
                  then add_factor (if hasHighValueContracts context then 2 else 1) acc4 else acc4)
      in acc5)"

definition dataPoints :: "osint_context \<Rightarrow> finding list \<Rightarrow> nat" where
  "dataPoints context findings =
     length (filter id
       [length (jobs context) > 0,
        length (tech context) > 0,
        length (news context) > 0,
        length (procurement context) > 0,
        length findings > 5])"

definition analyzeAutomationPotential :: "osint_context \<Rightarrow> finding list \<Rightarrow> automation_score" where
  "analyzeAutomationPotential context findings =
     (let (score, factors) = score_factors context findings;
          finalScore = (if factors > 0 then (score / real factors) * 5 else 0);
          confidence = min (0.5 + real (dataPoints context findings) * 0.1) 0.95;
          level = (if finalScore \<ge> 7 then HighPotential
                   else if finalScore \<ge> 4 then ModeratePotential
                   else LowPotential)
      in \<lparr> score = real_of_int (js_round (finalScore * 10)) / 10,
           as_confidence = confidence,
           as_level = level \<rparr>)"

section \<open>Errors (src/lib/errors.ts)\<close>

text \<open>
  The \<open>ApiError\<close> subclasses the code throws, and \<open>OtherError\<close> for any exception that is
  not an \<open>ApiError\<close> (a \<open>TypeError\<close>, a rejected network call, ...).
\<close>

datatype error =
    ValidationError string
  | RateLimitError string nat
  | ExternalServiceError string
  | OtherError string

section \<open>Sorting and insertion-ordered maps\<close>

text \<open>
  \<open>Array.prototype.sort(cmp)\<close> is stable; for a consistent comparator every stable sort
  returns the same array. The engine sorts a short array by insertion: it takes the
  elements from left to right and calls the comparator with the element being inserted
  first and an element already placed second, putting the new element before the placed
  one when the result is negative. \<open>insert_by cmp x\<close> does so with the placed elements
  taken from the left; the engine finds the place by bisection, which is the same place
  whenever the placed elements before which \<open>x\<close> may go (\<open>cmp x y < 0\<close>) form a suffix
  of the sorted prefix. That is so for a consistent comparator, and for the comparator of
  \<open>pinkoPassEnhanced\<close>, under which a finding tagged \<open>synthesis\<close> goes before all placed
  elements and any other finding after the tagged ones, by its score.
\<close>

fun insert_by :: "('a \<Rightarrow> 'a \<Rightarrow> real) \<Rightarrow> 'a \<Rightarrow> 'a list \<Rightarrow> 'a list" where
  "insert_by cmp x [] = [x]"
| "insert_by cmp x (y # ys) = (if cmp x y < 0 then x # y # ys else y # insert_by cmp x ys)"

definition js_sort_by :: "('a \<Rightarrow> 'a \<Rightarrow> real) \<Rightarrow> 'a list \<Rightarrow> 'a list" where
  "js_sort_by cmp xs = foldl (\<lambda>acc x. insert_by cmp x acc) [] xs"

text \<open>
  A JavaScript \<open>Map\<close> with string keys, in insertion order: \<open>set\<close> on a present key
  replaces the value in place, on a new key appends.
\<close>

fun map_set :: "string \<Rightarrow> 'v \<Rightarrow> (string \<times> 'v) list \<Rightarrow> (string \<times> 'v) list" where
  "map_set k v [] = [(k, v)]"
| "map_set k v ((k', v') # m) = (if k' = k then (k, v) # m else (k', v') # map_set k v m)"

section \<open>Cross-verification (kevin pass)\<close>

text \<open>
  The filter callback shared by \<open>kevinPass\<close> and \<open>kevinPassEnhanced\<close>: a finding with
  confidence below 0.5 and fewer than two sources is dropped; a kept finding with three or
  more sources has its confidence multiplied by 1.2, capped at 1. The source assigns the
  new confidence to the finding in place; the model returns the updated finding. The
  findings of a list are taken to be distinct objects. The product is exact (see the note
  on numbers in the data model).
\<close>

fun verify_filter :: "finding list \<Rightarrow> finding list" where
  "verify_filter [] = []"
| "verify_filter (f # fs) =
     (if confidence f < 0.5 \<and> length (sources f) < 2 then verify_filter fs
      else (if length (sources f) \<ge> 3
            then f\<lparr>confidence := min (confidence f * 1.2) 1.0\<rparr> else f) # verify_filter fs)"

text \<open>The two halves of the callback, for stating what it computes.\<close>

definition keep :: "finding \<Rightarrow> bool" where
  "keep f = (\<not> (confidence f < 0.5 \<and> length (sources f) < 2))"

definition boost :: "finding \<Rightarrow> finding" where
  "boost f = (if length (sources f) \<ge> 3 then f\<lparr>confidence := min (confidence f * 1.2) 1\<rparr> else f)"

text \<open>The \<open>forEach\<close> that fills the \<open>unique\<close> map, for a given key function.\<close>

definition dedupe_step ::
  "(finding \<Rightarrow> string) \<Rightarrow> (string \<times> finding) list \<Rightarrow> finding \<Rightarrow> (string \<times> finding) list" where
  "dedupe_step key_of unique f =
     (let key = key_of f in
      case map_of unique key of
        None \<Rightarrow> map_set key f unique
      | Some existing \<Rightarrow>
          if confidence f > confidence existing then map_set key f unique else unique)"

definition dedupe :: "(finding \<Rightarrow> string) \<Rightarrow> finding list \<Rightarrow> finding list" where
  "dedupe key_of verified = map snd (foldl (dedupe_step key_of) [] verified)"

text \<open>\<open>`${finding.title}-${finding.tags.join('-')}`\<close>, the key of the rule-based pass.\<close>

definition kevin_key :: "finding \<Rightarrow> string" where
  "kevin_key f = title f @ ''-'' @ join ''-'' (tags f)"

text \<open>
  \<open>kevinPassEnhanced\<close>. Its first argument is the outcome of \<open>getLLMProvider()\<close> and
  \<open>llm.analyzeContext(context, verifyPrompt)\<close>, whose text the function does not use.
  \<open>finding.tags.sort()\<close> sorts the tags of the finding in place (by code unit) before the
  key is built.
\<close>

definition sort_tags :: "finding \<Rightarrow> finding" where
  "sort_tags f = f\<lparr>tags := sort (tags f)\<rparr>"

definition kevinPassEnhanced ::
  "(osint_context \<Rightarrow> finding list \<Rightarrow> error + string) \<Rightarrow> osint_context \<Rightarrow> finding list
     \<Rightarrow> error + finding list" where
  "kevinPassEnhanced llm_verify context preliminary =
     (case llm_verify context preliminary of
        Inl e \<Rightarrow> Inl e
      | Inr verification \<Rightarrow>
          Inr (dedupe kevin_key (map sort_tags (verify_filter preliminary))))"

text \<open>
  \<open>kevinPass\<close>: the enhanced pass when \<open>LLM_PROVIDER\<close> is set and it does not throw, the
  rule-based pass otherwise.
\<close>

definition kevinPass_rules :: "finding list \<Rightarrow> finding list" where
  "kevinPass_rules preliminary = dedupe kevin_key (verify_filter preliminary)"

definition kevinPass ::
  "string option \<Rightarrow> (osint_context \<Rightarrow> finding list \<Rightarrow> error + string) \<Rightarrow> osint_context
     \<Rightarrow> finding list \<Rightarrow> finding list" where
  "kevinPass LLM_PROVIDER llm_verify context preliminary =
     (if truthy LLM_PROVIDER
      then (case kevinPassEnhanced llm_verify context preliminary of
              Inr r \<Rightarrow> r
            | Inl e \<Rightarrow> kevinPass_rules preliminary)
      else kevinPass_rules preliminary)"

section \<open>Synthesis (pinko pass)\<close>

text \<open>Decimal rendering of the numbers that the summary text interpolates.\<close>

fun show_nat :: "nat \<Rightarrow> string" where
  "show_nat n =
     (if n < 10 then [''0123456789'' ! n]
      else show_nat (n div 10) @ [''0123456789'' ! (n mod 10)])"

declare show_nat.simps [simp del]

text \<open>
  \<open>String(x)\<close> for a non-negative number with at most one decimal digit, which is what
  \<open>Math.round(finalScore * 10) / 10\<close> yields.
\<close>

definition show_score :: "real \<Rightarrow> string" where
  "show_score x =
     (let k = nat (js_round (x * 10)) in
      if k mod 10 = 0 then show_nat (k div 10)
      else show_nat (k div 10) @ ''.'' @ show_nat (k mod 10))"

fun level_name :: "level \<Rightarrow> string" where
  "level_name HighPotential = ''high-potential''"
| "level_name ModeratePotential = ''moderate-potential''"
| "level_name LowPotential = ''low-potential''"

definition generateSynthesis :: "osint_context \<Rightarrow> finding list \<Rightarrow> automation_score \<Rightarrow> string" where
  "generateSynthesis context findings automationScore =
     (let opportunities =
            length (filter (\<lambda>f. ''automation-opportunity'' \<in> set (tags f) \<or>
                                 ''high-impact'' \<in> set (tags f)) findings);
          hasJobs = (length (jobs context) > 0);
          hasTech = (length (tech context) > 0);
          hasGrowth = (\<exists>f \<in> set findings. ''growth'' \<in> set (tags f));
          summary0 = companyName context @ '' shows '' @ level_name (as_level automationScore) @
            '' potential for AI automation (score: '' @ show_score (score automationScore) @
            ''/10). '';
          summary1 = (if opportunities > 0
                      then summary0 @ ''Identified '' @ show_nat opportunities @
                           '' specific automation opportunities. ''
                      else summary0);
          summary2 = (if hasJobs
                      then summary1 @
                           ''Active hiring indicates growth and potential for process optimization. ''
                      else summary1);
          summary3 = (if hasTech
                      then summary2 @
                           ''Existing tech stack suggests openness to technology adoption. ''
                      else summary2);
          summary4 = (if hasGrowth
                      then summary3 @
                           ''Growth signals indicate scaling challenges that AI could address. ''
                      else summary3)
      in summary4)"

text \<open>
  The comparator of the rule-based pass: \<open>bScore - aScore\<close>. The products are exact
  (see the note on numbers in the data model).
\<close>

definition impact_score :: "finding \<Rightarrow> real" where
  "impact_score a = confidence a * (if ''high-impact'' \<in> set (tags a) then 1.5 else 1)"

definition pinko_cmp :: "finding \<Rightarrow> finding \<Rightarrow> real" where
  "pinko_cmp a b = impact_score b - impact_score a"

text \<open>
  The summary finding of the rule-based pass; \<open>today\<close> is
  \<open>new Date().toISOString().split('T')[0]\<close>.
\<close>

definition synthesis_finding :: "string \<Rightarrow> osint_context \<Rightarrow> finding list \<Rightarrow> finding" where
  "synthesis_finding today context verified =
     (let automationScore = analyzeAutomationPotential context verified in
      \<lparr> title = ''Overall Automation Opportunity Assessment'',
        detail = generateSynthesis context verified automationScore,
        confidence = as_confidence automationScore,
        tags = [''synthesis'', ''recommendation'', level_name (as_level automationScore)],
        sources = [\<lparr> src_title = ''Comprehensive Analysis'', src_url = None,
                     src_date = Some today \<rparr>],
        metadata = None \<rparr>)"

definition pinkoPass_rules :: "string \<Rightarrow> osint_context \<Rightarrow> finding list \<Rightarrow> finding list" where
  "pinkoPass_rules today context verified =
     js_sort_by pinko_cmp (verified @ [synthesis_finding today context verified])"

text \<open>
  \<open>pinkoPassEnhanced\<close>. \<open>synthesis.match(/score[:\s]+(\d+)/i)\<close> finds the leftmost
  \<open>score\<close> (in any case) followed by at least one colon or white-space character and
  then digits, and captures the digits.
\<close>

definition is_space :: "char \<Rightarrow> bool" where
  "is_space c = (c \<in> set [CHR 0x20, CHR 0x09, CHR 0x0A, CHR 0x0B, CHR 0x0C, CHR 0x0D])"

definition is_digit :: "char \<Rightarrow> bool" where
  "is_digit c = (CHR ''0'' \<le> c \<and> c \<le> CHR ''9'')"

definition match_score_at :: "string \<Rightarrow> string option" where
  "match_score_at s =
     (if toLowerCase (take 5 s) = ''score''
      then (let rest = drop 5 s;
                seps = takeWhile (\<lambda>c. c = CHR '':'' \<or> is_space c) rest;
                ds = takeWhile is_digit (dropWhile (\<lambda>c. c = CHR '':'' \<or> is_space c) rest)
            in if seps \<noteq> [] \<and> ds \<noteq> [] then Some ds else None)
      else None)"

fun find_score :: "string \<Rightarrow> string option" where
  "find_score [] = None"
| "find_score (c # cs) =
     (case match_score_at (c # cs) of Some ds \<Rightarrow> Some ds | None \<Rightarrow> find_score cs)"

text \<open>\<open>parseInt\<close> on a string of decimal digits.\<close>

definition digits_value :: "string \<Rightarrow> nat" where
  "digits_value ds = foldl (\<lambda>n c. 10 * n + (of_char c - 48)) 0 ds"

definition quick_score :: "finding \<Rightarrow> real" where
  "quick_score a = confidence a * (if ''high-impact'' \<in> set (tags a) then 1.5 else 1) *
                   (if ''quick-win'' \<in> set (tags a) then 1.3 else 1)"

definition pinko_cmp_enhanced :: "finding \<Rightarrow> finding \<Rightarrow> real" where
  "pinko_cmp_enhanced a b =
     (if ''synthesis'' \<in> set (tags a) then - 1
      else if ''synthesis'' \<in> set (tags b) then 1
      else quick_score b - quick_score a)"

definition pinkoPassEnhanced ::
  "(osint_context \<Rightarrow> finding list \<Rightarrow> error + string) \<Rightarrow> string \<Rightarrow> osint_context \<Rightarrow> finding list
     \<Rightarrow> error + finding list" where
  "pinkoPassEnhanced llm_synthesize today context verified =
     (case llm_synthesize context verified of
        Inl e \<Rightarrow> Inl e
      | Inr synthesis \<Rightarrow>
          (let automationScore =
                 (case find_score synthesis of
                    Some ds \<Rightarrow> int (digits_value ds)
                  | None \<Rightarrow> 7);
               synthesisFinding =
                 \<lparr> title = ''Comprehensive Automation Strategy'',
                   detail = synthesis,
                   confidence = 0.9,
                   tags = [''synthesis'', ''recommendation'', ''executive-summary''],
                   sources = [\<lparr> src_title = ''AI Analysis Synthesis'', src_url = None,
                                src_date = Some today \<rparr>],
                   metadata = None \<rparr>;
               prioritized = js_sort_by pinko_cmp_enhanced (verified @ [synthesisFinding])
           in Inr (map (\<lambda>f. f\<lparr>metadata := Some automationScore\<rparr>) prioritized)))"

definition pinkoPass ::
  "string option \<Rightarrow> (osint_context \<Rightarrow> finding list \<Rightarrow> error + string) \<Rightarrow> string
     \<Rightarrow> osint_context \<Rightarrow> finding list \<Rightarrow> finding list" where
  "pinkoPass LLM_PROVIDER llm_synthesize today context verified =
     (if truthy LLM_PROVIDER
      then (case pinkoPassEnhanced llm_synthesize today context verified of
              Inr r \<Rightarrow> r
            | Inl e \<Rightarrow> pinkoPass_rules today context verified)
      else pinkoPass_rules today context verified)"

section \<open>Effects\<close>

text \<open>
  An asynchronous call on the outside world (the counter store, the cache backend, a
  collector) takes the state of the world and returns either the error it rejects with
  or its value, together with the new state. \<open>thenE\<close> is \<open>await\<close> followed by the rest
  of the function body, \<open>catchE\<close> is \<open>try { ... } catch (error) { ... }\<close>.
\<close>

type_synonym ('a, 'w) io = "'w \<Rightarrow> (error + 'a) \<times> 'w"

definition returnE :: "'a \<Rightarrow> ('a, 'w) io" where
  "returnE a w = (Inr a, w)"

definition throwE :: "error \<Rightarrow> ('a, 'w) io" where
  "throwE e w = (Inl e, w)"

definition thenE :: "('a, 'w) io \<Rightarrow> ('a \<Rightarrow> ('b, 'w) io) \<Rightarrow> ('b, 'w) io" where
  "thenE m f w = (case m w of (Inl e, w') \<Rightarrow> (Inl e, w') | (Inr a, w') \<Rightarrow> f a w')"

text \<open>Whether a call returned rather than raised.\<close>

definition succeeded :: "error + 'a \<Rightarrow> bool" where
  "succeeded r = (case r of Inr a \<Rightarrow> True | Inl e \<Rightarrow> False)"

definition catchE :: "('a, 'w) io \<Rightarrow> (error \<Rightarrow> ('a, 'w) io) \<Rightarrow> ('a, 'w) io" where
  "catchE m h w = (case m w of (Inl e, w') \<Rightarrow> h e w' | (Inr a, w') \<Rightarrow> (Inr a, w'))"

section \<open>Counter store (src/lib/rate-limit/memory-rate-limit.ts)\<close>

text \<open>
  The client \<open>rateLimiter\<close> is a Redis connection or a \<open>MemoryRateLimiter\<close>; the code uses
  the five methods below. \<open>get\<close> returns a string or \<open>null\<close>.
\<close>

record 'w rate_limiter =
  rl_incr :: "string \<Rightarrow> (int, 'w) io"
  rl_decr :: "string \<Rightarrow> (int, 'w) io"
  rl_get :: "string \<Rightarrow> (string option, 'w) io"
  rl_del :: "string \<Rightarrow> (unit, 'w) io"
  rl_expire :: "string \<Rightarrow> nat \<Rightarrow> (unit, 'w) io"

text \<open>
  The in-memory implementation: a table of counters and, for each key with an armed
  expiry timer, the delay of the timer in seconds. The firing of a timer (which deletes
  the counter) is not part of a call and is not modelled.
\<close>

record memory_rate_limiter =
  counters :: "string \<rightharpoonup> int"
  expiryTimers :: "string \<rightharpoonup> nat"

text \<open>\<open>this.counters.get(key) || 0\<close>.\<close>

definition counter_or_0 :: "memory_rate_limiter \<Rightarrow> string \<Rightarrow> int" where
  "counter_or_0 st key = (case counters st key of None \<Rightarrow> 0 | Some v \<Rightarrow> v)"

text \<open>\<open>value.toString()\<close> of an integer.\<close>

definition show_int :: "int \<Rightarrow> string" where
  "show_int i = (if i < 0 then ''-'' @ show_nat (nat (- i)) else show_nat (nat i))"

definition mem_incr :: "string \<Rightarrow> (int, memory_rate_limiter) io" where
  "mem_incr key st =
     (let current = counter_or_0 st key;
          newValue = current + 1
      in (Inr newValue, st\<lparr>counters := (counters st)(key \<mapsto> newValue)\<rparr>))"

definition mem_decr :: "string \<Rightarrow> (int, memory_rate_limiter) io" where
  "mem_decr key st =
     (let current = counter_or_0 st key;
          newValue = max 0 (current - 1)
      in if newValue = 0
         then (Inr newValue, st\<lparr>counters := (counters st)(key := None)\<rparr>)
         else (Inr newValue, st\<lparr>counters := (counters st)(key \<mapsto> newValue)\<rparr>))"

definition mem_get :: "string \<Rightarrow> (string option, memory_rate_limiter) io" where
  "mem_get key st =
     (case counters st key of
        Some v \<Rightarrow> (Inr (Some (show_int v)), st)
      | None \<Rightarrow> (Inr None, st))"

definition mem_del :: "string \<Rightarrow> (unit, memory_rate_limiter) io" where
  "mem_del key st =
     (Inr (), st\<lparr>counters := (counters st)(key := None),
                 expiryTimers := (expiryTimers st)(key := None)\<rparr>)"

definition mem_expire :: "string \<Rightarrow> nat \<Rightarrow> (unit, memory_rate_limiter) io" where
  "mem_expire key seconds st = (Inr (), st\<lparr>expiryTimers := (expiryTimers st)(key \<mapsto> seconds)\<rparr>)"

definition MemoryRateLimiter :: "memory_rate_limiter rate_limiter" where
  "MemoryRateLimiter =
     \<lparr> rl_incr = mem_incr, rl_decr = mem_decr, rl_get = mem_get, rl_del = mem_del,
       rl_expire = mem_expire \<rparr>"

definition flushed :: memory_rate_limiter where
  "flushed = \<lparr> counters = Map.empty, expiryTimers = Map.empty \<rparr>"

section \<open>Admission (src/lib/rate-limit.ts)\<close>

text \<open>
  \<open>parseInt(s)\<close> without a radix: leading white space is skipped, a sign is read, a
  \<open>0x\<close> prefix selects base 16, and the longest run of digits is the value; \<open>None\<close> is
  \<open>NaN\<close>.
\<close>

definition is_hex_digit :: "char \<Rightarrow> bool" where
  "is_hex_digit c = (is_digit c \<or> (CHR ''a'' \<le> lower_char c \<and> lower_char c \<le> CHR ''f''))"

definition hex_digit_value :: "char \<Rightarrow> nat" where
  "hex_digit_value c = (if is_digit c then of_char c - 48 else of_char (lower_char c) - 87)"

definition hex_value :: "string \<Rightarrow> nat" where
  "hex_value ds = foldl (\<lambda>n c. 16 * n + hex_digit_value c) 0 ds"

definition parseInt :: "string \<Rightarrow> int option" where
  "parseInt s =
     (let s1 = dropWhile is_space s;
          negative = (s1 \<noteq> [] \<and> hd s1 = CHR ''-'');
          s2 = (if s1 \<noteq> [] \<and> (hd s1 = CHR ''-'' \<or> hd s1 = CHR ''+'') then tl s1 else s1);
          sign = (if negative then - 1 else 1)
      in if toLowerCase (take 2 s2) = ''0x''
         then (let ds = takeWhile is_hex_digit (drop 2 s2)
               in if ds = [] then None else Some (sign * int (hex_value ds)))
         else (let ds = takeWhile is_digit s2
               in if ds = [] then None else Some (sign * int (digits_value ds))))"

text \<open>
  \<open>concurrentCount && parseInt(concurrentCount) >= CONCURRENT_LIMIT\<close>: \<open>null\<close> and the
  empty string are falsy, and a comparison with \<open>NaN\<close> is false.
\<close>

definition at_concurrent_limit :: "int \<Rightarrow> string option \<Rightarrow> bool" where
  "at_concurrent_limit CONCURRENT_LIMIT concurrentCount =
     (case concurrentCount of
        None \<Rightarrow> False
      | Some s \<Rightarrow> s \<noteq> [] \<and> (case parseInt s of None \<Rightarrow> False | Some n \<Rightarrow> n \<ge> CONCURRENT_LIMIT))"

definition dailyKey :: "string \<Rightarrow> string \<Rightarrow> string" where
  "dailyKey clientId today = ''rate:daily:'' @ clientId @ '':'' @ today"

definition concurrentKey :: "string \<Rightarrow> string" where
  "concurrentKey clientId = ''rate:concurrent:'' @ clientId"

text \<open>
  \<open>checkRateLimit\<close>. \<open>DAILY_LIMIT\<close> and \<open>CONCURRENT_LIMIT\<close> are the two module constants,
  \<open>today\<close> is \<open>new Date().toISOString().split('T')[0]\<close>. The body of the \<open>try\<close> is
  \<open>checkRateLimit_body\<close>; the \<open>catch\<close> returns \<open>true\<close>.
\<close>

definition checkRateLimit_body ::
  "'w rate_limiter \<Rightarrow> int \<Rightarrow> int \<Rightarrow> string \<Rightarrow> string \<Rightarrow> (bool, 'w) io" where
  "checkRateLimit_body R DAILY_LIMIT CONCURRENT_LIMIT today clientId =
     thenE (rl_incr R (dailyKey clientId today)) (\<lambda>dailyCount.
     thenE (if dailyCount = 1 then rl_expire R (dailyKey clientId today) 86400 else returnE ()) (\<lambda>_.
     if dailyCount > DAILY_LIMIT
     then thenE (rl_decr R (dailyKey clientId today)) (\<lambda>_. returnE False)
     else thenE (rl_get R (concurrentKey clientId)) (\<lambda>concurrentCount.
          if at_concurrent_limit CONCURRENT_LIMIT concurrentCount
          then thenE (rl_decr R (dailyKey clientId today)) (\<lambda>_. returnE False)
          else returnE True)))"

definition checkRateLimit ::
  "'w rate_limiter \<Rightarrow> int \<Rightarrow> int \<Rightarrow> string \<Rightarrow> string \<Rightarrow> 'w \<Rightarrow> bool \<times> 'w" where
  "checkRateLimit R DAILY_LIMIT CONCURRENT_LIMIT today clientId w =
     (case checkRateLimit_body R DAILY_LIMIT CONCURRENT_LIMIT today clientId w of
        (Inr ok, w') \<Rightarrow> (ok, w')
      | (Inl error, w') \<Rightarrow> (True, w'))"

definition incrementConcurrent :: "'w rate_limiter \<Rightarrow> string \<Rightarrow> (unit, 'w) io" where
  "incrementConcurrent R clientId =
     thenE (rl_incr R (concurrentKey clientId)) (\<lambda>_.
     rl_expire R (concurrentKey clientId) 3600)"

definition decrementConcurrent :: "'w rate_limiter \<Rightarrow> string \<Rightarrow> (unit, 'w) io" where
  "decrementConcurrent R clientId =
     thenE (rl_decr R (concurrentKey clientId)) (\<lambda>count.
     if count \<le> 0 then rl_del R (concurrentKey clientId) else returnE ())"

text \<open>
  A client that records every call with its outcome (\<open>True\<close> when it returned, \<open>False\<close>
  when it raised), for stating which calls a function makes.
\<close>

datatype rl_call = Incr string | Decr string | Get string | Del string | Expire string nat

definition record_call ::
  "rl_call \<Rightarrow> ('a, 'w) io \<Rightarrow> ('a, 'w \<times> (rl_call \<times> bool) list) io" where
  "record_call c m wl =
     (case m (fst wl) of (r, w') \<Rightarrow> (r, (w', snd wl @ [(c, succeeded r)])))"

definition logged :: "'w rate_limiter \<Rightarrow> ('w \<times> (rl_call \<times> bool) list) rate_limiter" where
  "logged R =
     \<lparr> rl_incr = (\<lambda>k. record_call (Incr k) (rl_incr R k)),
       rl_decr = (\<lambda>k. record_call (Decr k) (rl_decr R k)),
       rl_get = (\<lambda>k. record_call (Get k) (rl_get R k)),
       rl_del = (\<lambda>k. record_call (Del k) (rl_del R k)),
       rl_expire = (\<lambda>k n. record_call (Expire k n) (rl_expire R k n)) \<rparr>"



section \<open>Cache keys (src/lib/cache.ts)\<close>

text \<open>
  The values that are serialised into cache keys. A number is an integer; the properties
  of an object are listed in the order in which \<open>Object.keys\<close> enumerates them, which
  for the keys used here is the order of insertion.
\<close>

datatype json =
    JUndefined
  | JNull
  | JBool bool
  | JNum int
  | JStr string
  | JArr "json list"
  | JObj "(string \<times> json) list"

text \<open>
  \<open>JSON.stringify\<close>. A string is quoted, with the quote, the backslash and the control
  characters escaped. \<open>undefined\<close> has no serialisation (\<open>None\<close>): as a property value it
  makes the property disappear, as an array element it is written \<open>null\<close>.
\<close>

definition hex_digit :: "nat \<Rightarrow> char" where
  "hex_digit n = ''0123456789abcdef'' ! n"

definition json_escape :: "char \<Rightarrow> string" where
  "json_escape c =
     (if c = CHR 0x22 then [CHR 0x5C, CHR 0x22]
      else if c = CHR 0x5C then [CHR 0x5C, CHR 0x5C]
      else if c = CHR 0x08 then [CHR 0x5C, CHR ''b'']
      else if c = CHR 0x0C then [CHR 0x5C, CHR ''f'']
      else if c = CHR 0x0A then [CHR 0x5C, CHR ''n'']
      else if c = CHR 0x0D then [CHR 0x5C, CHR ''r'']
      else if c = CHR 0x09 then [CHR 0x5C, CHR ''t'']
      else if (of_char c :: nat) < 32
      then [CHR 0x5C, CHR ''u'', CHR ''0'', CHR ''0'',
            hex_digit (of_char c div 16), hex_digit (of_char c mod 16)]
      else [c])"

definition json_quote :: "string \<Rightarrow> string" where
  "json_quote s = [CHR 0x22] @ concat (map json_escape s) @ [CHR 0x22]"

fun stringify :: "json \<Rightarrow> string option"
  and stringify_elements :: "json list \<Rightarrow> string list"
  and stringify_properties :: "(string \<times> json) list \<Rightarrow> string list" where
  "stringify JUndefined = None"
| "stringify JNull = Some ''null''"
| "stringify (JBool b) = Some (if b then ''true'' else ''false'')"
| "stringify (JNum i) = Some (show_int i)"
| "stringify (JStr s) = Some (json_quote s)"
| "stringify (JArr xs) = Some (''['' @ join '','' (stringify_elements xs) @ '']'')"
| "stringify (JObj ps) = Some (''{'' @ join '','' (stringify_properties ps) @ ''}'')"
| "stringify_elements [] = []"
| "stringify_elements (x # xs) =
     (case stringify x of None \<Rightarrow> ''null'' | Some t \<Rightarrow> t) # stringify_elements xs"
| "stringify_properties [] = []"
| "stringify_properties ((k, v) # ps) =
     (case stringify v of
        None \<Rightarrow> stringify_properties ps
      | Some t \<Rightarrow> (json_quote k @ '':'' @ t) # stringify_properties ps)"

subsection \<open>SHA-256\<close>

text \<open>
  \<open>createHash('sha256').update(text).digest('hex')\<close> of Node's \<open>crypto\<close> module, after
  FIPS 180-4. A 32-bit word is a natural number below \<open>2 ^ 32\<close>; additions are reduced
  modulo \<open>2 ^ 32\<close>. The round constants and the initial hash value are written in decimal.
\<close>

definition add32 :: "nat \<Rightarrow> nat \<Rightarrow> nat" where
  "add32 a b = (a + b) mod 4294967296"

definition rotr :: "nat \<Rightarrow> nat \<Rightarrow> nat" where
  "rotr n x = (x div 2 ^ n) OR ((x * 2 ^ (32 - n)) mod 4294967296)"

definition shr :: "nat \<Rightarrow> nat \<Rightarrow> nat" where
  "shr n x = x div 2 ^ n"

definition not32 :: "nat \<Rightarrow> nat" where
  "not32 x = 4294967295 - x"

definition ch :: "nat \<Rightarrow> nat \<Rightarrow> nat \<Rightarrow> nat" where
  "ch x y z = (x AND y) XOR (not32 x AND z)"

definition maj :: "nat \<Rightarrow> nat \<Rightarrow> nat \<Rightarrow> nat" where
  "maj x y z = (x AND y) XOR (x AND z) XOR (y AND z)"

definition bsig0 :: "nat \<Rightarrow> nat" where
  "bsig0 x = rotr 2 x XOR rotr 13 x XOR rotr 22 x"

definition bsig1 :: "nat \<Rightarrow> nat" where
  "bsig1 x = rotr 6 x XOR rotr 11 x XOR rotr 25 x"

definition ssig0 :: "nat \<Rightarrow> nat" where
  "ssig0 x = rotr 7 x XOR rotr 18 x XOR shr 3 x"

definition ssig1 :: "nat \<Rightarrow> nat" where
  "ssig1 x = rotr 17 x XOR rotr 19 x XOR shr 10 x"

definition K256 :: "nat list" where
  "K256 =
     [1116352408, 1899447441, 3049323471, 3921009573, 961987163, 1508970993,
      2453635748, 2870763221, 3624381080, 310598401, 607225278, 1426881987,
      1925078388, 2162078206, 2614888103, 3248222580, 3835390401, 4022224774,
      264347078, 604807628, 770255983, 1249150122, 1555081692, 1996064986,
      2554220882, 2821834349, 2952996808, 3210313671, 3336571891, 3584528711,
      113926993, 338241895, 666307205, 773529912, 1294757372, 1396182291,
      1695183700, 1986661051, 2177026350, 2456956037, 2730485921, 2820302411,
      3259730800, 3345764771, 3516065817, 3600352804, 4094571909, 275423344,
      430227734, 506948616, 659060556, 883997877, 958139571, 1322822218,
      1537002063, 1747873779, 1955562222, 2024104815, 2227730452, 2361852424,
      2428436474, 2756734187, 3204031479, 3329325298]"

definition H256 :: "nat list" where
  "H256 =
     [1779033703, 3144134277, 1013904242, 2773480762,
      1359893119, 2600822924, 528734635, 1541459225]"

text \<open>
  The message schedule is built with the most recent word first, so that \<open>W(t-2)\<close>,
  \<open>W(t-7)\<close>, \<open>W(t-15)\<close> and \<open>W(t-16)\<close> are at the positions 1, 6, 14 and 15.
\<close>

definition sched_next :: "nat list \<Rightarrow> nat" where
  "sched_next ws = add32 (add32 (ssig1 (ws ! 1)) (ws ! 6)) (add32 (ssig0 (ws ! 14)) (ws ! 15))"

fun sched_extend :: "nat \<Rightarrow> nat list \<Rightarrow> nat list" where
  "sched_extend 0 ws = ws"
| "sched_extend (Suc n) ws = sched_extend n (sched_next ws # ws)"

definition schedule :: "nat list \<Rightarrow> nat list" where
  "schedule block = rev (sched_extend 48 (rev block))"

fun shift_in :: "nat \<Rightarrow> nat \<Rightarrow> nat list \<Rightarrow> nat list" where
  "shift_in t1 t2 [a, b, c, d, e, f, g, h] = [add32 t1 t2, a, b, c, add32 d t1, e, f, g]"
| "shift_in t1 t2 v = v"

fun round256 :: "nat list \<Rightarrow> nat \<times> nat \<Rightarrow> nat list" where
  "round256 [a, b, c, d, e, f, g, h] (k, w) =
     shift_in (add32 (add32 (add32 h (bsig1 e)) (add32 (ch e f g) k)) w)
       (add32 (bsig0 a) (maj a b c)) [a, b, c, d, e, f, g, h]"
| "round256 v kw = v"

definition compress :: "nat list \<Rightarrow> nat list \<Rightarrow> nat list" where
  "compress hs block = map2 add32 hs (foldl round256 hs (zip K256 (schedule block)))"

fun words_of :: "nat list \<Rightarrow> nat list" where
  "words_of (b0 # b1 # b2 # b3 # bs) = (((b0 * 256 + b1) * 256 + b2) * 256 + b3) # words_of bs"
| "words_of bs = []"

fun blocks :: "nat list \<Rightarrow> nat list list" where
  "blocks ws = (if length ws < 16 then [] else take 16 ws # blocks (drop 16 ws))"

declare blocks.simps [simp del]

definition be64 :: "nat \<Rightarrow> nat list" where
  "be64 n = map (\<lambda>i. (n div 256 ^ i) mod 256) [7, 6, 5, 4, 3, 2, 1, 0]"

definition pad :: "nat list \<Rightarrow> nat list" where
  "pad m = m @ [0x80] @ replicate ((119 - length m mod 64) mod 64) 0 @ be64 (8 * length m)"

definition sha256 :: "nat list \<Rightarrow> nat list" where
  "sha256 m = foldl compress H256 (blocks (words_of (pad m)))"

definition hex_chars :: "char set" where
  "hex_chars = set ''0123456789abcdef''"

definition hex32 :: "nat \<Rightarrow> string" where
  "hex32 w = map (\<lambda>i. hex_digit ((w div 16 ^ i) mod 16)) [7, 6, 5, 4, 3, 2, 1, 0]"

definition sha256_hex :: "string \<Rightarrow> string" where
  "sha256_hex s = concat (map hex32 (sha256 (map of_char s)))"

subsection \<open>Key derivation\<close>

text \<open>
  \<open>CacheService.generateKey\<close>; \<open>prefix\<close> is the field of the service (\<open>'cache'\<close> for the
  exported instance). \<open>hash.update(undefined)\<close> throws a \<open>TypeError\<close>.
\<close>

definition generateKey :: "string \<Rightarrow> string \<Rightarrow> json \<Rightarrow> error + string" where
  "generateKey prefix namespace data =
     (case stringify data of
        None \<Rightarrow> Inl (OtherError ''ERR_INVALID_ARG_TYPE'')
      | Some text \<Rightarrow> Inr (prefix @ '':'' @ namespace @ '':'' @ take 16 (sha256_hex text)))"

text \<open>
  Equality of key parameters up to the order of object keys: the two values have the
  same form once the properties of every object are sorted by key.
\<close>

fun canonical :: "json \<Rightarrow> json"
  and canonical_elements :: "json list \<Rightarrow> json list"
  and canonical_properties :: "(string \<times> json) list \<Rightarrow> (string \<times> json) list" where
  "canonical (JArr xs) = JArr (canonical_elements xs)"
| "canonical (JObj ps) = JObj (sort_key fst (canonical_properties ps))"
| "canonical JUndefined = JUndefined"
| "canonical JNull = JNull"
| "canonical (JBool b) = JBool b"
| "canonical (JNum i) = JNum i"
| "canonical (JStr s) = JStr s"
| "canonical_elements [] = []"
| "canonical_elements (x # xs) = canonical x # canonical_elements xs"
| "canonical_properties [] = []"
| "canonical_properties ((k, v) # ps) = (k, canonical v) # canonical_properties ps"

text \<open>
  Equality of key parameters up to properties whose value is \<open>undefined\<close>: the value that
  is left when every such property is dropped and every \<open>undefined\<close> element of an array
  is read as \<open>null\<close>. The order of the properties is kept.
\<close>

fun defined_part :: "json \<Rightarrow> json"
  and defined_elements :: "json list \<Rightarrow> json list"
  and defined_properties :: "(string \<times> json) list \<Rightarrow> (string \<times> json) list" where
  "defined_part (JArr xs) = JArr (defined_elements xs)"
| "defined_part (JObj ps) = JObj (defined_properties ps)"
| "defined_part JUndefined = JUndefined"
| "defined_part JNull = JNull"
| "defined_part (JBool b) = JBool b"
| "defined_part (JNum i) = JNum i"
| "defined_part (JStr s) = JStr s"
| "defined_elements [] = []"
| "defined_elements (x # xs) =
     (if x = JUndefined then JNull else defined_part x) # defined_elements xs"
| "defined_properties [] = []"
| "defined_properties ((k, v) # ps) =
     (if v = JUndefined then defined_properties ps else (k, defined_part v) # defined_properties ps)"

section \<open>Cache backends and the cache service (src/lib/cache.ts)\<close>

text \<open>
  What \<open>cacheClient.get\<close> resolves to: a string (which the service parses as JSON) or a
  stored value that is not a string. The values the code stores are objects, which are
  truthy.
\<close>

datatype 'v cached = CachedText string | CachedValue 'v

text \<open>
  The client \<open>cacheClient\<close> is a Redis connection (\<open>cc_is_redis\<close>, written to with
  \<open>setex\<close>) or a \<open>MemoryCache\<close> (written to with \<open>set\<close>).
\<close>

record ('v, 'w) cache_client =
  cc_is_redis :: bool
  cc_get :: "string \<Rightarrow> ('v cached option, 'w) io"
  cc_setex :: "string \<Rightarrow> nat \<Rightarrow> string \<Rightarrow> (unit, 'w) io"
  cc_set :: "string \<Rightarrow> 'v \<Rightarrow> nat \<Rightarrow> (unit, 'w) io"
  cc_del :: "string \<Rightarrow> (unit, 'w) io"

text \<open>
  The in-memory backend (src/lib/cache/memory-cache.ts): the clock \<open>Date.now()\<close> in
  milliseconds, the entries with their expiry, and the deadline of the cleanup timer of
  each key.
\<close>

record 'v memory_cache =
  mc_now :: nat
  mc_entries :: "string \<rightharpoonup> ('v \<times> nat)"
  mc_timers :: "string \<rightharpoonup> nat"

definition mc_get :: "string \<Rightarrow> ('v cached option, 'v memory_cache) io" where
  "mc_get key st =
     (case mc_entries st key of
        None \<Rightarrow> (Inr None, st)
      | Some (val, expiry) \<Rightarrow>
          if mc_now st > expiry
          then (Inr None, st\<lparr>mc_entries := (mc_entries st)(key := None)\<rparr>)
          else (Inr (Some (CachedValue val)), st))"

definition mc_set :: "string \<Rightarrow> 'v \<Rightarrow> nat \<Rightarrow> (unit, 'v memory_cache) io" where
  "mc_set key val ttlSeconds st =
     (let expiry = mc_now st + ttlSeconds * 1000
      in (Inr (), st\<lparr>mc_entries := (mc_entries st)(key \<mapsto> (val, expiry)),
                     mc_timers := (mc_timers st)(key \<mapsto> mc_now st + ttlSeconds * 1000)\<rparr>))"

definition mc_del :: "string \<Rightarrow> (unit, 'v memory_cache) io" where
  "mc_del key st =
     (Inr (), st\<lparr>mc_entries := (mc_entries st)(key := None),
                 mc_timers := (mc_timers st)(key := None)\<rparr>)"

text \<open>
  The passing of \<open>ms\<close> milliseconds: the clock advances and every cleanup timer whose
  delay has elapsed fires, deleting its entry.
\<close>

definition elapse :: "nat \<Rightarrow> 'v memory_cache \<Rightarrow> 'v memory_cache" where
  "elapse ms st =
     (let due = (\<lambda>k. case mc_timers st k of None \<Rightarrow> False | Some t \<Rightarrow> t \<le> mc_now st + ms)
      in \<lparr> mc_now = mc_now st + ms,
           mc_entries = (\<lambda>k. if due k then None else mc_entries st k),
           mc_timers = (\<lambda>k. if due k then None else mc_timers st k) \<rparr>)"

definition MemoryCache :: "('v, 'v memory_cache) cache_client" where
  "MemoryCache =
     \<lparr> cc_is_redis = False, cc_get = mc_get,
       cc_setex = (\<lambda>key ttl serial. throwE (OtherError ''setex is not a function'')),
       cc_set = mc_set, cc_del = mc_del \<rparr>"

text \<open>The table \<open>TTL\<close> and \<open>ttl || TTL[namespace] || TTL.DEFAULT\<close>.\<close>

definition TTL :: "string \<Rightarrow> nat option" where
  "TTL namespace =
     (if namespace = ''OSINT'' then Some 3600
      else if namespace = ''JOB_SEARCH'' then Some 1800
      else if namespace = ''RESEARCH'' then Some 86400
      else if namespace = ''DEFAULT'' then Some 3600
      else None)"

definition ttlSeconds :: "nat option \<Rightarrow> string \<Rightarrow> nat" where
  "ttlSeconds ttl namespace =
     (case ttl of
        Some t \<Rightarrow> if t \<noteq> 0 then t else (case TTL namespace of Some d \<Rightarrow> d | None \<Rightarrow> 3600)
      | None \<Rightarrow> (case TTL namespace of Some d \<Rightarrow> d | None \<Rightarrow> 3600))"

text \<open>
  The service, with its \<open>prefix\<close>, the variable \<open>ENABLE_CACHE\<close> of the environment, the
  client, and \<open>JSON.parse\<close> and \<open>JSON.stringify\<close> on the cached values (\<open>JSON.parse\<close> may
  return \<open>null\<close>).
\<close>

record ('v, 'w) cache_service =
  cs_prefix :: string
  cs_ENABLE_CACHE :: "string option"
  cs_client :: "('v, 'w) cache_client"
  cs_parse :: "string \<Rightarrow> error + 'v option"
  cs_stringify :: "'v \<Rightarrow> error + string"

text \<open>\<open>CacheService.get\<close>; \<open>None\<close> is \<open>null\<close>. The key is generated before the \<open>try\<close>.\<close>

definition cache_get ::
  "('v, 'w) cache_service \<Rightarrow> string \<Rightarrow> json \<Rightarrow> ('v option, 'w) io" where
  "cache_get C namespace keyData =
     (if cs_ENABLE_CACHE C = Some ''false'' then returnE None
      else (case generateKey (cs_prefix C) namespace keyData of
              Inl e \<Rightarrow> throwE e
            | Inr key \<Rightarrow>
                catchE
                  (thenE (cc_get (cs_client C) key) (\<lambda>cached.
                     case cached of
                       Some (CachedText serial) \<Rightarrow>
                         if serial \<noteq> []
                         then (case cs_parse C serial of Inl e \<Rightarrow> throwE e | Inr v \<Rightarrow> returnE v)
                         else returnE None
                     | Some (CachedValue v) \<Rightarrow> returnE (Some v)
                     | None \<Rightarrow> returnE None))
                  (\<lambda>error. returnE None)))"

text \<open>\<open>CacheService.set\<close>.\<close>

definition cache_set ::
  "('v, 'w) cache_service \<Rightarrow> string \<Rightarrow> json \<Rightarrow> 'v \<Rightarrow> nat option \<Rightarrow> (unit, 'w) io" where
  "cache_set C namespace keyData val ttl =
     (if cs_ENABLE_CACHE C = Some ''false'' then returnE ()
      else (case generateKey (cs_prefix C) namespace keyData of
              Inl e \<Rightarrow> throwE e
            | Inr key \<Rightarrow>
                catchE
                  (if cc_is_redis (cs_client C)
                   then (case cs_stringify C val of
                           Inl e \<Rightarrow> throwE e
                         | Inr serial \<Rightarrow>
                             cc_setex (cs_client C) key (ttlSeconds ttl namespace) serial)
                   else cc_set (cs_client C) key val (ttlSeconds ttl namespace))
                  (\<lambda>error. returnE ())))"

section \<open>Research engine (src/services/research/engine.ts)\<close>

record company =
  co_name :: string
  co_domain :: "string option"
  co_homepageUrl :: "string option"

record job_posting =
  jp_title :: string
  jp_company :: string
  jp_url :: "string option"
  jp_location :: "string option"
  jp_date :: "string option"
  jp_source :: "string option"

record research_request =
  req_keywords :: "string option"
  req_location :: "string option"
  req_companyName :: "string option"
  req_companyUrl :: "string option"
  req_notes :: "string option"
  req_clientId :: "string option"
  req_userId :: "string option"

record company_findings =
  cf_company :: string
  cf_jobs :: "job_posting list"
  cf_research :: "finding list"

datatype model = Horsemen | OpportunitySearch

datatype result_findings = Findings "finding list" | CompanyFindings "company_findings list"

record result_meta =
  meta_keywords :: "string option"
  meta_location :: "string option"
  meta_notes :: "string option"

record research_result =
  res_jobId :: string
  res_model :: model
  res_summary :: string
  res_findings :: result_findings
  res_meta :: result_meta

text \<open>
  The collaborators of the engine. The cache service is the exported \<open>cache\<close>. The job
  board search and the evidence collector (\<open>collectOsintContext\<close>) are calls on the
  outside world that may raise; \<open>sv_hostname\<close> is \<open>new URL(u).hostname\<close>, \<open>None\<close> when the
  constructor throws. The first three passes of the analysis and the two calls on the
  language model are functions of their arguments that may raise; \<open>sv_today\<close> is the
  current date.
\<close>

record 'w services =
  sv_cache :: "(research_result, 'w) cache_service"
  sv_searchJobBoards :: "string \<Rightarrow> string option \<Rightarrow> (job_posting list, 'w) io"
  sv_hostname :: "string \<Rightarrow> string option"
  sv_collectOsintContext :: "company \<Rightarrow> (osint_context, 'w) io"
  sv_brodyPass :: "osint_context \<Rightarrow> error + finding list"
  sv_karenPass :: "osint_context \<Rightarrow> error + finding list"
  sv_durinPass :: "osint_context \<Rightarrow> error + finding list"
  sv_LLM_PROVIDER :: "string option"
  sv_llm_verify :: "osint_context \<Rightarrow> finding list \<Rightarrow> error + string"
  sv_llm_synthesize :: "osint_context \<Rightarrow> finding list \<Rightarrow> error + string"
  sv_today :: string

definition liftE :: "error + 'a \<Rightarrow> ('a, 'w) io" where
  "liftE r w = (r, w)"

text \<open>\<open>runHorsemenAnalysis\<close>: the five passes in order.\<close>

definition runHorsemenAnalysis :: "'w services \<Rightarrow> osint_context \<Rightarrow> (finding list, 'w) io" where
  "runHorsemenAnalysis S context =
     thenE (liftE (sv_brodyPass S context)) (\<lambda>brody.
     thenE (liftE (sv_karenPass S context)) (\<lambda>karen.
     thenE (liftE (sv_durinPass S context)) (\<lambda>durin.
     (let preliminary = brody @ karen @ durin;
          verified = kevinPass (sv_LLM_PROVIDER S) (sv_llm_verify S) context preliminary;
          findings = pinkoPass (sv_LLM_PROVIDER S) (sv_llm_synthesize S) (sv_today S) context
                       verified
      in returnE findings))))"

definition generateSummary :: "finding list \<Rightarrow> string" where
  "generateSummary findings =
     (let highConfidence = length (filter (\<lambda>f. confidence f \<ge> 0.8) findings);
          opportunities =
            length (filter (\<lambda>f. ''automation-opportunity'' \<in> set (tags f) \<or>
                                 ''high-impact'' \<in> set (tags f)) findings)
      in ''Analysis complete: '' @ show_nat (length findings) @ '' findings ('' @
         show_nat highConfidence @ '' high confidence). '' @ show_nat opportunities @
         '' automation opportunities identified.'')"

text \<open>
  \<open>runDeepResearch\<close>: the validation is outside the \<open>try\<close>; every error raised inside it
  is rethrown as \<open>ExternalServiceError('Research Engine')\<close>.
\<close>

definition runDeepResearch :: "'w services \<Rightarrow> research_request \<Rightarrow> (research_result, 'w) io" where
  "runDeepResearch S request =
     (if \<not> truthy (req_companyName request) \<and> \<not> truthy (req_companyUrl request)
      then throwE (ValidationError ''Either companyName or companyUrl is required'')
      else catchE
             (thenE (sv_collectOsintContext S
                       \<lparr> co_name = str_or (req_companyName request) [],
                         co_domain = Some (str_or (req_companyUrl request) []),
                         co_homepageUrl = Some (str_or (req_companyUrl request) []) \<rparr>)
                (\<lambda>context.
              thenE (runHorsemenAnalysis S context) (\<lambda>findings.
              returnE
                \<lparr> res_jobId = str_or (req_clientId request) ''anonymous'',
                  res_model = Horsemen,
                  res_summary = generateSummary findings,
                  res_findings = Findings findings,
                  res_meta = \<lparr> meta_keywords = None, meta_location = None,
                               meta_notes = req_notes request \<rparr> \<rparr>)))
             (\<lambda>error. throwE (ExternalServiceError ''Research Engine'')))"

text \<open>The \<open>forEach\<close> that groups the postings by company, in order of first appearance.\<close>

definition group_by_company :: "job_posting list \<Rightarrow> (string \<times> job_posting list) list" where
  "group_by_company jobPostings =
     foldl (\<lambda>companiesMap job.
              map_set (jp_company job)
                ((case map_of companiesMap (jp_company job) of None \<Rightarrow> [] | Some existing \<Rightarrow> existing)
                 @ [job])
                companiesMap)
       [] jobPostings"

definition topCompanies :: "job_posting list \<Rightarrow> (string \<times> job_posting list) list" where
  "topCompanies jobPostings =
     take 10 (js_sort_by (\<lambda>a b. real (length (snd b)) - real (length (snd a)))
                (group_by_company jobPostings))"

text \<open>\<open>jobs[0].url ? new URL(jobs[0].url).hostname : undefined\<close>.\<close>

definition company_url :: "'w services \<Rightarrow> job_posting list \<Rightarrow> error + string option" where
  "company_url S jobs' =
     (case jobs' of
        [] \<Rightarrow> Inl (OtherError ''TypeError'')
      | job # _ \<Rightarrow>
          (case jp_url job of
             None \<Rightarrow> Inr None
           | Some u \<Rightarrow>
               if u = [] then Inr None
               else (case sv_hostname S u of
                       None \<Rightarrow> Inl (OtherError ''ERR_INVALID_URL'')
                     | Some h \<Rightarrow> Inr (Some h))))"

text \<open>\<open>analysis.findings as Finding[]\<close>; \<open>runDeepResearch\<close> returns a list of findings.\<close>

definition research_of :: "research_result \<Rightarrow> finding list" where
  "research_of analysis =
     (case res_findings analysis of Findings fs \<Rightarrow> fs | CompanyFindings cs \<Rightarrow> [])"

text \<open>
  The loop over the top companies: each company is researched in turn and its findings
  are appended; nothing in the loop catches an error.
\<close>

fun analyze_companies ::
  "'w services \<Rightarrow> string option \<Rightarrow> (string \<times> job_posting list) list
     \<Rightarrow> (company_findings list, 'w) io" where
  "analyze_companies S notes [] = returnE []"
| "analyze_companies S notes ((company, jobs') # rest) =
     thenE (liftE (company_url S jobs')) (\<lambda>companyUrl.
     thenE (runDeepResearch S
              \<lparr> req_keywords = None, req_location = None,
                req_companyName = Some company, req_companyUrl = companyUrl,
                req_notes = Some (str_or notes [] @ '' Found '' @ show_nat (length jobs') @
                                  '' relevant job postings''),
                req_clientId = None, req_userId = None \<rparr>) (\<lambda>analysis.
     thenE (analyze_companies S notes rest) (\<lambda>more.
     returnE (\<lparr> cf_company = company, cf_jobs = jobs', cf_research = research_of analysis \<rparr>
              # more))))"

definition cacheKey :: "research_request \<Rightarrow> json" where
  "cacheKey request =
     JObj [(''keywords'', JStr (the (req_keywords request))),
           (''location'', case req_location request of None \<Rightarrow> JUndefined | Some l \<Rightarrow> JStr l)]"

definition searchOpportunities :: "'w services \<Rightarrow> research_request \<Rightarrow> (research_result, 'w) io" where
  "searchOpportunities S request =
     (if \<not> truthy (req_keywords request)
      then throwE (ValidationError ''Keywords are required for opportunity search'')
      else
        thenE (cache_get (sv_cache S) ''JOB_SEARCH'' (cacheKey request)) (\<lambda>cached.
        case cached of
          Some hit \<Rightarrow> returnE hit
        | None \<Rightarrow>
            thenE (sv_searchJobBoards S (the (req_keywords request)) (req_location request))
              (\<lambda>jobPostings.
            thenE (analyze_companies S (req_notes request) (topCompanies jobPostings))
              (\<lambda>findings.
            (let result =
                   \<lparr> res_jobId = str_or (req_clientId request) ''anonymous'',
                     res_model = OpportunitySearch,
                     res_summary =
                       ''Found '' @ show_nat (length jobPostings) @ '' job postings across '' @
                       show_nat (length (group_by_company jobPostings)) @ '' companies. Top '' @
                       show_nat (length findings) @ '' companies analyzed.'',
                     res_findings = CompanyFindings findings,
                     res_meta = \<lparr> meta_keywords = req_keywords request,
                                  meta_location = req_location request,
                                  meta_notes = req_notes request \<rparr> \<rparr>
             in thenE (cache_set (sv_cache S) ''JOB_SEARCH'' (cacheKey request) result None)
                  (\<lambda>_. returnE result))))))"

section \<open>The research endpoint (src/app/api/research/route.ts)\<close>

text \<open>
  The application: the counter store with the two limits, the engine's collaborators, and
  the two format checks of the validation schema (\<open>z.string().url()\<close> and
  \<open>z.string().uuid()\<close>).
\<close>

record 'w app =
  app_rateLimiter :: "'w rate_limiter"
  app_DAILY_LIMIT :: int
  app_CONCURRENT_LIMIT :: int
  app_services :: "'w services"
  app_is_url :: "string \<Rightarrow> bool"
  app_is_uuid :: "string \<Rightarrow> bool"

text \<open>
  \<open>ResearchRequestSchema.safeParse\<close> on a body whose fields are strings or absent: the
  format checks, then the refinement.
\<close>

definition optional_ok :: "(string \<Rightarrow> bool) \<Rightarrow> string option \<Rightarrow> bool" where
  "optional_ok check v = (case v of None \<Rightarrow> True | Some s \<Rightarrow> check s)"

definition schema_ok :: "'w app \<Rightarrow> research_request \<Rightarrow> bool" where
  "schema_ok A data =
     (optional_ok (app_is_url A) (req_companyUrl data) \<and>
      optional_ok (app_is_uuid A) (req_clientId data) \<and>
      optional_ok (app_is_uuid A) (req_userId data) \<and>
      ((truthy (req_keywords data) \<and> \<not> truthy (req_companyName data)) \<or>
       (\<not> truthy (req_keywords data) \<and>
        (truthy (req_companyName data) \<or> truthy (req_companyUrl data)))))"

datatype response =
    Success research_result
  | Failure nat string string

text \<open>\<open>errorHandler\<close>: status code, message and code of the error response.\<close>

fun errorHandler :: "error \<Rightarrow> response" where
  "errorHandler (ValidationError message) = Failure 400 message ''VALIDATION_ERROR''"
| "errorHandler (RateLimitError message retryAfter) = Failure 429 message ''RATE_LIMIT_EXCEEDED''"
| "errorHandler (ExternalServiceError service) =
     Failure 502 (''External service error: '' @ service) ''EXTERNAL_SERVICE_ERROR''"
| "errorHandler (OtherError message) = Failure 500 ''Internal server error'' ''INTERNAL_ERROR''"

text \<open>
  \<open>POST\<close>. The argument \<open>body\<close> is the outcome of \<open>request.json()\<close>. The body of the \<open>try\<close>
  is \<open>POST_body\<close>; the \<open>catch\<close> turns the error into a response.
\<close>

definition POST_body :: "'w app \<Rightarrow> error + research_request \<Rightarrow> (research_result, 'w) io" where
  "POST_body A body =
     thenE (liftE body) (\<lambda>data.
     if \<not> schema_ok A data then throwE (ValidationError ''Invalid request parameters'')
     else
       (\<lambda>w. case checkRateLimit (app_rateLimiter A) (app_DAILY_LIMIT A) (app_CONCURRENT_LIMIT A)
                   (sv_today (app_services A)) (str_or (req_clientId data) ''anonymous'') w of
               (rateLimitOk, w') \<Rightarrow>
                 if \<not> rateLimitOk
                 then throwE (RateLimitError
                        ''Daily research limit exceeded. Please try again tomorrow.'' 86400) w'
                 else if truthy (req_keywords data) \<and> \<not> truthy (req_companyName data) \<and>
                         \<not> truthy (req_companyUrl data)
                      then searchOpportunities (app_services A) data w'
                      else runDeepResearch (app_services A) data w'))"

definition POST :: "'w app \<Rightarrow> error + research_request \<Rightarrow> 'w \<Rightarrow> response \<times> 'w" where
  "POST A body w =
     (case POST_body A body w of
        (Inr result, w') \<Rightarrow> (Success result, w')
      | (Inl error, w') \<Rightarrow> (errorHandler error, w'))"

section \<open>Concrete inputs\<close>

text \<open>Two findings with the same title and the same tags in a different order.\<close>

definition finding_fin_auto :: finding where
  "finding_fin_auto =
     \<lparr> title = ''Manual invoicing'', detail = ''Invoices are keyed in by hand'',
       confidence = 0.9, tags = [''finance'', ''automation-opportunity''],
       sources = [], metadata = None \<rparr>"

definition finding_auto_fin :: finding where
  "finding_auto_fin =
     \<lparr> title = ''Manual invoicing'', detail = ''Invoice entry is manual'',
       confidence = 0.8, tags = [''automation-opportunity'', ''finance''],
       sources = [], metadata = None \<rparr>"

text \<open>A finding of confidence 0.99 and a company about which nothing was collected.\<close>

definition finding_sure :: finding where
  "finding_sure =
     \<lparr> title = ''Manual data entry roles'', detail = ''Five open data entry positions'',
       confidence = 0.99, tags = [''automation-opportunity''], sources = [], metadata = None \<rparr>"

text \<open>A verified finding that carries the tag \<open>synthesis\<close> itself.\<close>

definition finding_tagged_synthesis :: finding where
  "finding_tagged_synthesis =
     \<lparr> title = ''Earlier synthesis'', detail = ''Summary of a previous run'',
       confidence = 0.99, tags = [''synthesis''], sources = [], metadata = None \<rparr>"

definition context_acme :: osint_context where
  "context_acme =
     \<lparr> companyName = ''Acme'', domain = ''acme.com'', homepageUrl = ''acme.com'', corp = None,
       news = [], jobs = [], tech = [], social = [], procurement = [], archives = [],
       evidence = [] \<rparr>"

text \<open>
  A memory store whose \<open>decr\<close> raises, as a lost connection would, and a state in which
  the tenant has used the daily limit of 50.
\<close>

definition broken_decr :: "memory_rate_limiter rate_limiter" where
  "broken_decr = MemoryRateLimiter\<lparr>rl_decr := (\<lambda>k. throwE (OtherError ''Connection lost''))\<rparr>"

definition at_daily_cap :: memory_rate_limiter where
  "at_daily_cap =
     \<lparr> counters = [dailyKey ''tenant-1'' ''2025-08-21'' \<mapsto> 50],
       expiryTimers = [dailyKey ''tenant-1'' ''2025-08-21'' \<mapsto> 86400] \<rparr>"



text \<open>The key parameters of one search, with the two properties in either order.\<close>

definition keyparams_kl :: json where
  "keyparams_kl = JObj [(''keywords'', JStr ''data entry''), (''location'', JStr ''New York'')]"

definition keyparams_lk :: json where
  "keyparams_lk = JObj [(''location'', JStr ''New York''), (''keywords'', JStr ''data entry'')]"

text \<open>The same key parameters with a property \<open>notes\<close> that is \<open>undefined\<close>.\<close>

definition keyparams_kl_notes :: json where
  "keyparams_kl_notes =
     JObj [(''keywords'', JStr ''data entry''), (''notes'', JUndefined),
           (''location'', JStr ''New York'')]"

text \<open>A Redis client whose every command is rejected, and a service that uses it.\<close>

definition unreachable_cache :: "(nat, unit) cache_client" where
  "unreachable_cache =
     \<lparr> cc_is_redis = True,
       cc_get = (\<lambda>key. throwE (OtherError ''ECONNREFUSED'')),
       cc_setex = (\<lambda>key ttl serial. throwE (OtherError ''ECONNREFUSED'')),
       cc_set = (\<lambda>key val ttl. throwE (OtherError ''ECONNREFUSED'')),
       cc_del = (\<lambda>key. throwE (OtherError ''ECONNREFUSED'')) \<rparr>"

definition outage_service :: "(nat, unit) cache_service" where
  "outage_service =
     \<lparr> cs_prefix = ''cache'', cs_ENABLE_CACHE = None, cs_client = unreachable_cache,
       cs_parse = (\<lambda>serial. Inr None), cs_stringify = (\<lambda>v. Inr (show_nat v)) \<rparr>"

text \<open>
  An engine on the in-memory cache: the job boards return one posting of Success Corp and
  one of Fail Corp, and evidence collection fails for Fail Corp.
\<close>

definition simple_hostname :: "string \<Rightarrow> string option" where
  "simple_hostname u =
     (if startsWith u ''https://'' then Some (takeWhile (\<lambda>c. c \<noteq> CHR ''/'') (drop 8 u))
      else None)"

definition posting_success :: job_posting where
  "posting_success =
     \<lparr> jp_title = ''Data Entry Specialist'', jp_company = ''Success Corp'',
       jp_url = Some ''https://success.com/jobs/1'', jp_location = Some ''Remote'',
       jp_date = None, jp_source = Some ''indeed'' \<rparr>"

definition posting_fail :: job_posting where
  "posting_fail =
     \<lparr> jp_title = ''Claims Processor'', jp_company = ''Fail Corp'',
       jp_url = Some ''https://fail.com/jobs/2'', jp_location = Some ''Remote'',
       jp_date = None, jp_source = Some ''indeed'' \<rparr>"

definition collect_unless_fail :: "company \<Rightarrow> error + osint_context" where
  "collect_unless_fail c =
     (if co_name c = ''Fail Corp'' then Inl (OtherError ''OSINT API failure'')
      else Inr (context_acme\<lparr>companyName := co_name c\<rparr>))"

definition memory_cache_service :: "(research_result, research_result memory_cache) cache_service" where
  "memory_cache_service =
     \<lparr> cs_prefix = ''cache'', cs_ENABLE_CACHE = Some ''true'', cs_client = MemoryCache,
       cs_parse = (\<lambda>serial. Inl (OtherError ''SyntaxError'')),
       cs_stringify = (\<lambda>v. Inl (OtherError ''unused'')) \<rparr>"

definition two_company_engine :: "research_result memory_cache services" where
  "two_company_engine =
     \<lparr> sv_cache = memory_cache_service,
       sv_searchJobBoards = (\<lambda>keywords location. returnE [posting_success, posting_fail]),
       sv_hostname = simple_hostname,
       sv_collectOsintContext = (\<lambda>c. liftE (collect_unless_fail c)),
       sv_brodyPass = (\<lambda>context. Inr [finding_sure]),
       sv_karenPass = (\<lambda>context. Inr []),
       sv_durinPass = (\<lambda>context. Inr []),
       sv_LLM_PROVIDER = None,
       sv_llm_verify = (\<lambda>context fs. Inl (OtherError ''no provider'')),
       sv_llm_synthesize = (\<lambda>context fs. Inl (OtherError ''no provider'')),
       sv_today = ''2025-08-21'' \<rparr>"

definition cold_cache :: "research_result memory_cache" where
  "cold_cache = \<lparr> mc_now = 0, mc_entries = Map.empty, mc_timers = Map.empty \<rparr>"

definition request_partial :: research_request where
  "request_partial =
     \<lparr> req_keywords = Some ''partial failure test'', req_location = None,
       req_companyName = None, req_companyUrl = None, req_notes = None,
       req_clientId = Some ''550e8400-e29b-41d4-a716-446655440004'', req_userId = None \<rparr>"

text \<open>
  An engine whose job boards return the posting of Success Corp only, and the same search
  by two tenants.
\<close>

definition one_company_engine :: "research_result memory_cache services" where
  "one_company_engine =
     two_company_engine\<lparr>sv_searchJobBoards := (\<lambda>keywords location. returnE [posting_success])\<rparr>"

definition request_tenant_a :: research_request where
  "request_tenant_a =
     \<lparr> req_keywords = Some ''data entry'', req_location = Some ''New York'',
       req_companyName = None, req_companyUrl = None, req_notes = None,
       req_clientId = Some ''tenant-a'', req_userId = None \<rparr>"

definition request_tenant_b :: research_request where
  "request_tenant_b = request_tenant_a\<lparr>req_clientId := Some ''tenant-b''\<rparr>"

text \<open>What the pipeline returns for Success Corp.\<close>

definition success_context :: osint_context where
  "success_context = context_acme\<lparr>companyName := ''Success Corp''\<rparr>"

definition success_findings :: "finding list" where
  "success_findings =
     pinkoPass None (\<lambda>context fs. Inl (OtherError ''no provider'')) ''2025-08-21'' success_context
       (kevinPass None (\<lambda>context fs. Inl (OtherError ''no provider'')) success_context
          [finding_sure])"

text \<open>
  An application on the in-memory counter store and cache, observed: the world holds the
  two stores and the list of the calls made on the counter store, on the job boards and
  on the evidence collector, in order.
\<close>

datatype event = LimiterCall rl_call bool | JobBoardSearch string | EvidenceCollection string

record world =
  w_limiter :: memory_rate_limiter
  w_cache :: "research_result memory_cache"
  w_events :: "event list"

definition on_limiter :: "rl_call \<Rightarrow> ('a, memory_rate_limiter) io \<Rightarrow> ('a, world) io" where
  "on_limiter c m w =
     (case m (w_limiter w) of
        (r, st) \<Rightarrow> (r, w\<lparr>w_limiter := st, w_events := w_events w @ [LimiterCall c (succeeded r)]\<rparr>))"

definition on_cache :: "('a, research_result memory_cache) io \<Rightarrow> ('a, world) io" where
  "on_cache m w = (case m (w_cache w) of (r, st) \<Rightarrow> (r, w\<lparr>w_cache := st\<rparr>))"

definition observe :: "event \<Rightarrow> error + 'a \<Rightarrow> ('a, world) io" where
  "observe ev r w = (r, w\<lparr>w_events := w_events w @ [ev]\<rparr>)"

definition observed_limiter :: "world rate_limiter" where
  "observed_limiter =
     \<lparr> rl_incr = (\<lambda>k. on_limiter (Incr k) (mem_incr k)),
       rl_decr = (\<lambda>k. on_limiter (Decr k) (mem_decr k)),
       rl_get = (\<lambda>k. on_limiter (Get k) (mem_get k)),
       rl_del = (\<lambda>k. on_limiter (Del k) (mem_del k)),
       rl_expire = (\<lambda>k n. on_limiter (Expire k n) (mem_expire k n)) \<rparr>"

definition observed_cache :: "(research_result, world) cache_service" where
  "observed_cache =
     \<lparr> cs_prefix = ''cache'', cs_ENABLE_CACHE = Some ''true'',
       cs_client =
         \<lparr> cc_is_redis = False, cc_get = (\<lambda>key. on_cache (mc_get key)),
           cc_setex = (\<lambda>key ttl serial. throwE (OtherError ''setex is not a function'')),
           cc_set = (\<lambda>key val ttl. on_cache (mc_set key val ttl)),
           cc_del = (\<lambda>key. on_cache (mc_del key)) \<rparr>,
       cs_parse = (\<lambda>serial. Inl (OtherError ''SyntaxError'')),
       cs_stringify = (\<lambda>v. Inl (OtherError ''unused'')) \<rparr>"

definition observed_services :: "world services" where
  "observed_services =
     \<lparr> sv_cache = observed_cache,
       sv_searchJobBoards =
         (\<lambda>keywords location. observe (JobBoardSearch keywords) (Inr [posting_success])),
       sv_hostname = simple_hostname,
       sv_collectOsintContext =
         (\<lambda>c. observe (EvidenceCollection (co_name c)) (collect_unless_fail c)),
       sv_brodyPass = (\<lambda>context. Inr [finding_sure]),
       sv_karenPass = (\<lambda>context. Inr []),
       sv_durinPass = (\<lambda>context. Inr []),
       sv_LLM_PROVIDER = None,
       sv_llm_verify = (\<lambda>context fs. Inl (OtherError ''no provider'')),
       sv_llm_synthesize = (\<lambda>context fs. Inl (OtherError ''no provider'')),
       sv_today = ''2025-08-21'' \<rparr>"

text \<open>Stand-ins for the two format checks, enough for the requests below.\<close>

definition looks_like_url :: "string \<Rightarrow> bool" where
  "looks_like_url s = (startsWith s ''https://'' \<or> startsWith s ''http://'')"

definition looks_like_uuid :: "string \<Rightarrow> bool" where
  "looks_like_uuid s =
     (length s = 36 \<and> s ! 8 = CHR ''-'' \<and> s ! 13 = CHR ''-'' \<and> s ! 18 = CHR ''-'' \<and>
      s ! 23 = CHR ''-'' \<and> (\<forall>c \<in> set s. c = CHR ''-'' \<or> is_hex_digit c))"

definition observed_app :: "world app" where
  "observed_app =
     \<lparr> app_rateLimiter = observed_limiter, app_DAILY_LIMIT = 50, app_CONCURRENT_LIMIT = 3,
       app_services = observed_services, app_is_url = looks_like_url,
       app_is_uuid = looks_like_uuid \<rparr>"

definition fresh_world :: world where
  "fresh_world = \<lparr> w_limiter = flushed, w_cache = cold_cache, w_events = [] \<rparr>"

definition request_search :: research_request where
  "request_search =
     \<lparr> req_keywords = Some ''data entry'', req_location = Some ''New York'',
       req_companyName = None, req_companyUrl = None, req_notes = None,
       req_clientId = Some ''550e8400-e29b-41d4-a716-446655440000'', req_userId = None \<rparr>"

text \<open>The world after the admission check of that request.\<close>

definition w_admitted :: world where
  "w_admitted =
     \<lparr> w_limiter =
         \<lparr> counters = [dailyKey ''550e8400-e29b-41d4-a716-446655440000'' ''2025-08-21'' \<mapsto> 1],
           expiryTimers = [dailyKey ''550e8400-e29b-41d4-a716-446655440000'' ''2025-08-21'' \<mapsto> 86400] \<rparr>,
       w_cache = cold_cache,
       w_events =
         [LimiterCall (Incr (dailyKey ''550e8400-e29b-41d4-a716-446655440000'' ''2025-08-21'')) True,
          LimiterCall (Expire (dailyKey ''550e8400-e29b-41d4-a716-446655440000'' ''2025-08-21'') 86400) True,
          LimiterCall (Get (concurrentKey ''550e8400-e29b-41d4-a716-446655440000'')) True] \<rparr>"

section \<open>Properties of the scoring\<close>

lemma add_factor_bounds:
  assumes "0 \<le> fst acc" "fst acc \<le> 2 * real (snd acc)" "0 \<le> pts" "pts \<le> 2"
  shows "0 \<le> fst (add_factor pts acc) \<and> fst (add_factor pts acc) \<le> 2 * real (snd (add_factor pts acc))"
  using assms by (simp add: add_factor_def)

lemma score_factors_bounds:
  "0 \<le> fst (score_factors ctx findings) \<and>
   fst (score_factors ctx findings) \<le> 2 * real (snd (score_factors ctx findings))"
proof -
  define n where "n = length (filter (\<lambda>f. ''automation-opportunity'' \<in> set (tags f)) findings)"
  define a1 where "a1 = (if n > 0 then add_factor (min (real n * 0.5) 2) (0, 0) else (0, 0))"
  define a2 where "a2 = (if (\<exists>f \<in> set findings. ''growth'' \<in> set (tags f)) \<or> length (jobs ctx) \<ge> 5
                         then add_factor 1.5 a1 else a1)"
  define a3 where "a3 = (if hasRepetitiveTasks findings then add_factor 2 a2 else a2)"
  define a4 where "a4 = (if length (tech ctx) > 0
                         then add_factor (if hasModernTech ctx then 2 else 1) a3 else a3)"
  define a5 where "a5 = (if length (procurement ctx) > 0
                         then add_factor (if hasHighValueContracts ctx then 2 else 1) a4 else a4)"
  have eq: "score_factors ctx findings = a5"
    by (simp add: score_factors_def Let_def a5_def a4_def a3_def a2_def a1_def n_def)
  have b1: "0 \<le> fst a1 \<and> fst a1 \<le> 2 * real (snd a1)"
    unfolding a1_def by (simp add: add_factor_def)
  have b2: "0 \<le> fst a2 \<and> fst a2 \<le> 2 * real (snd a2)"
    unfolding a2_def using b1 add_factor_bounds [of a1 "1.5"] by simp
  have b3: "0 \<le> fst a3 \<and> fst a3 \<le> 2 * real (snd a3)"
    unfolding a3_def using b2 add_factor_bounds [of a2 2] by simp
  have b4: "0 \<le> fst a4 \<and> fst a4 \<le> 2 * real (snd a4)"
    unfolding a4_def using b3 add_factor_bounds [of a3 2] add_factor_bounds [of a3 1] by simp
  have b5: "0 \<le> fst a5 \<and> fst a5 \<le> 2 * real (snd a5)"
    unfolding a5_def using b4 add_factor_bounds [of a4 2] add_factor_bounds [of a4 1] by simp
  show ?thesis using b5 eq by simp
qed

lemma js_round_bounds:
  assumes "0 \<le> x" "x \<le> 100"
  shows "0 \<le> js_round x \<and> js_round x \<le> 100"
proof -
  have "0 \<le> \<lfloor>x + 1 / 2\<rfloor>" using assms by simp
  moreover have "x + 1 / 2 < 101" using assms by simp
  then have "\<lfloor>x + 1 / 2\<rfloor> < 101" by (simp add: floor_less_iff)
  ultimately show ?thesis by (simp add: js_round_def)
qed

text \<open>
  C8: for every evidence bundle and every list of findings, the score computed by
  \<open>analyzeAutomationPotential\<close> lies in [0,10] and the confidence in [0,1].
\<close>

theorem analyzeAutomationPotential_range:
  "0 \<le> score (analyzeAutomationPotential ctx findings) \<and>
   score (analyzeAutomationPotential ctx findings) \<le> 10 \<and>
   0 \<le> as_confidence (analyzeAutomationPotential ctx findings) \<and>
   as_confidence (analyzeAutomationPotential ctx findings) \<le> 1"
proof -
  obtain s f where sf: "score_factors ctx findings = (s, f)"
    by (cases "score_factors ctx findings")
  from score_factors_bounds [of ctx findings] sf
  have s0: "0 \<le> s" and s2: "s \<le> 2 * real f" by simp_all
  define fs where "fs = (if f > 0 then (s / real f) * 5 else 0)"
  have fs0: "0 \<le> fs" using s0 by (simp add: fs_def)
  have fs10: "fs \<le> 10"
  proof (cases "f > 0")
    case True
    define q where "q = s / real f"
    have "q \<le> 2" using s2 True by (simp add: q_def pos_divide_le_eq)
    then have "q * 5 \<le> 10" by simp
    then show ?thesis using True unfolding fs_def q_def by (simp only: if_True)
  next
    case False
    then show ?thesis by (simp add: fs_def)
  qed
  have r: "0 \<le> js_round (fs * 10) \<and> js_round (fs * 10) \<le> 100"
    using js_round_bounds [of "fs * 10"] fs0 fs10 by simp
  have sc: "score (analyzeAutomationPotential ctx findings) = real_of_int (js_round (fs * 10)) / 10"
    by (simp add: analyzeAutomationPotential_def sf fs_def Let_def)
  have cf: "as_confidence (analyzeAutomationPotential ctx findings)
            = min (0.5 + real (dataPoints ctx findings) * 0.1) 0.95"
    by (simp add: analyzeAutomationPotential_def sf Let_def)
  have "0 \<le> real_of_int (js_round (fs * 10)) / 10" using r by simp
  moreover have "real_of_int (js_round (fs * 10)) / 10 \<le> 10"
  proof -
    have "real_of_int (js_round (fs * 10)) \<le> 100" using r by linarith
    then show ?thesis by simp
  qed
  moreover have "0 \<le> min (0.5 + real (dataPoints ctx findings) * 0.1) (0.95::real)" by simp
  moreover have "min (0.5 + real (dataPoints ctx findings) * 0.1) (0.95::real) \<le> 1" by simp
  ultimately show ?thesis using sc cf by simp
qed

section \<open>Properties of the cross-verification\<close>

lemma verify_filter_eq: "verify_filter fs = map boost (filter keep fs)"
  by (induction fs) (simp_all add: keep_def boost_def)

lemma kevinPassEnhanced_merges_reordered_tags:
  "kevinPassEnhanced (\<lambda>c p. Inr answer) ctx [finding_fin_auto, finding_auto_fin]
     = Inr [sort_tags finding_fin_auto]"
  by (simp add: kevinPassEnhanced_def dedupe_def dedupe_step_def kevin_key_def
      finding_fin_auto_def finding_auto_fin_def sort_tags_def)

text \<open>
  C6: the cross-verification stage deduplicates the surviving findings by the pair
  (title, sorted tags). The rule-based pass builds its key from the tags in the order they
  are given: with \<open>LLM_PROVIDER\<close> unset, two findings with the same title and the tags
  \<open>finance, automation-opportunity\<close> and \<open>automation-opportunity, finance\<close> are both
  returned, where \<open>kevinPassEnhanced\<close> keeps only the first one.
\<close>

theorem kevinPass_keeps_reordered_tags:
  "kevinPass None llm_verify ctx [finding_fin_auto, finding_auto_fin]
     = [finding_fin_auto, finding_auto_fin]"
  by (simp add: kevinPass_def truthy_def kevinPass_rules_def dedupe_def dedupe_step_def
      kevin_key_def finding_fin_auto_def finding_auto_fin_def)

section \<open>Properties of the synthesis\<close>

lemma analyze_confidence:
  "as_confidence (analyzeAutomationPotential c v) = min (0.5 + real (dataPoints c v) * 0.1) 0.95"
  by (simp add: analyzeAutomationPotential_def Let_def split: prod.splits)

lemma synthesis_confidence: "confidence (synthesis_finding t c v) \<le> 0.95"
proof -
  have "confidence (synthesis_finding t c v) = min (0.5 + real (dataPoints c v) * 0.1) 0.95"
    by (simp add: synthesis_finding_def Let_def analyze_confidence)
  then show ?thesis by (simp only: min.cobounded2)
qed

lemma synthesis_not_high_impact: "''high-impact'' \<notin> set (tags (synthesis_finding t c v))"
  by (cases "as_level (analyzeAutomationPotential c v)")
     (simp_all add: synthesis_finding_def Let_def)

lemma pinkoPassEnhanced_summary_first:
  "map title (projr (pinkoPassEnhanced (\<lambda>c v. Inr ''Overall score: 8 out of 10'') today
      context_acme [finding_sure]))
     = [''Comprehensive Automation Strategy'', ''Manual data entry roles'']"
  by (simp add: pinkoPassEnhanced_def js_sort_by_def pinko_cmp_enhanced_def finding_sure_def
      Let_def)

text \<open>
  The comparator of the enhanced pass answers \<open>-1\<close> whenever its first argument is tagged
  \<open>synthesis\<close>; the summary is appended last, so it is compared as the first argument
  and goes to the front, also before a verified finding with that tag.
\<close>

lemma pinkoPassEnhanced_summary_before_tagged:
  "map title (projr (pinkoPassEnhanced (\<lambda>c v. Inr ''Overall score: 8 out of 10'') today
      context_acme [finding_sure, finding_tagged_synthesis]))
     = [''Comprehensive Automation Strategy'', ''Earlier synthesis'', ''Manual data entry roles'']"
  by (simp add: pinkoPassEnhanced_def js_sort_by_def pinko_cmp_enhanced_def finding_sure_def
      finding_tagged_synthesis_def Let_def)

text \<open>
  C7: the list returned by the synthesis stage has the summary finding first. The
  rule-based pass sorts the summary with the other findings by \<open>confidence\<close> times the
  impact multiplier only: with \<open>LLM_PROVIDER\<close> unset, a verified finding of confidence 0.99
  is returned before the summary, whose confidence is at most 0.95.
\<close>

theorem pinkoPass_summary_not_first:
  "pinkoPass None llm_synthesize today context_acme [finding_sure]
     = [finding_sure, synthesis_finding today context_acme [finding_sure]]"
  using synthesis_confidence [of today context_acme "[finding_sure]"]
    synthesis_not_high_impact [of today context_acme "[finding_sure]"]
  by (simp add: pinkoPass_def truthy_def pinkoPass_rules_def js_sort_by_def pinko_cmp_def
      impact_score_def finding_sure_def)

section \<open>Properties of the admission check\<close>

lemma logged_incr:
  "rl_incr (logged R) k (w, l) =
     (fst (rl_incr R k w), (snd (rl_incr R k w), l @ [(Incr k, succeeded (fst (rl_incr R k w)))]))"
  by (simp add: logged_def record_call_def split: prod.splits)

lemma logged_decr:
  "rl_decr (logged R) k (w, l) =
     (fst (rl_decr R k w), (snd (rl_decr R k w), l @ [(Decr k, succeeded (fst (rl_decr R k w)))]))"
  by (simp add: logged_def record_call_def split: prod.splits)

lemma logged_get:
  "rl_get (logged R) k (w, l) =
     (fst (rl_get R k w), (snd (rl_get R k w), l @ [(Get k, succeeded (fst (rl_get R k w)))]))"
  by (simp add: logged_def record_call_def split: prod.splits)

lemma logged_del:
  "rl_del (logged R) k (w, l) =
     (fst (rl_del R k w), (snd (rl_del R k w), l @ [(Del k, succeeded (fst (rl_del R k w)))]))"
  by (simp add: logged_def record_call_def split: prod.splits)

lemma logged_expire:
  "rl_expire (logged R) k n (w, l) =
     (fst (rl_expire R k n w),
      (snd (rl_expire R k n w), l @ [(Expire k n, succeeded (fst (rl_expire R k n w)))]))"
  by (simp add: logged_def record_call_def split: prod.splits)

lemmas logged_simps = logged_incr logged_decr logged_get logged_del logged_expire

lemmas memory_simps = MemoryRateLimiter_def mem_incr_def mem_decr_def mem_get_def mem_del_def
  mem_expire_def counter_or_0_def

text \<open>
  The text that \<open>MemoryRateLimiter.get\<close> returns for a counter, its decimal numeral,
  parses back to the counter.
\<close>

lemma digit_char: "d < 10 \<Longrightarrow> is_digit (''0123456789'' ! d) \<and> of_char (''0123456789'' ! d) = 48 + d"
proof -
  assume "d < 10"
  then consider "d = 0" | "d = 1" | "d = 2" | "d = 3" | "d = 4" | "d = 5" | "d = 6" | "d = 7"
    | "d = 8" | "d = 9" by atomize_elim arith
  then show ?thesis by cases (simp_all add: is_digit_def)
qed

lemma show_nat_digits: "show_nat n \<noteq> [] \<and> (\<forall>c \<in> set (show_nat n). is_digit c)"
proof (induction n rule: show_nat.induct)
  case (1 n)
  show ?case
  proof (cases "n < 10")
    case True
    then show ?thesis using digit_char [of n] by (subst show_nat.simps, subst (2) show_nat.simps) simp
  next
    case False
    then have "n mod 10 < 10" by simp
    then show ?thesis using 1 False digit_char [of "n mod 10"]
      by (subst show_nat.simps, subst (2) show_nat.simps) auto
  qed
qed

lemma digits_value_snoc: "digits_value (ds @ [c]) = 10 * digits_value ds + (of_char c - 48)"
  by (simp add: digits_value_def)

lemma digits_value_show_nat: "digits_value (show_nat n) = n"
proof (induction n rule: show_nat.induct)
  case (1 n)
  show ?case
  proof (cases "n < 10")
    case True
    then show ?thesis using digit_char [of n]
      by (subst show_nat.simps) (simp add: digits_value_def)
  next
    case False
    have "n mod 10 < 10" by simp
    then have "of_char (''0123456789'' ! (n mod 10)) = 48 + n mod 10"
      using digit_char by blast
    then show ?thesis using 1 False
      by (subst show_nat.simps) (simp add: digits_value_snoc)
  qed
qed

lemma is_digit_not_space: "is_digit c \<Longrightarrow> \<not> is_space c \<and> c \<noteq> CHR ''-'' \<and> c \<noteq> CHR ''+'' \<and> lower_char c \<noteq> CHR ''x'' \<and> lower_char c = c"
  by (auto simp add: is_digit_def is_space_def lower_char_def less_eq_char_def)

lemma parseInt_digits:
  assumes "ds \<noteq> []" "\<forall>c \<in> set ds. is_digit c"
  shows "parseInt ds = Some (int (digits_value ds))"
proof -
  obtain c cs where ds: "ds = c # cs" using assms(1) by (cases ds) auto
  have c: "is_digit c" using assms(2) ds by simp
  have dw: "dropWhile is_space ds = ds" using c is_digit_not_space ds by simp
  have tw: "takeWhile is_digit ds = ds" using assms(2) by (simp add: takeWhile_eq_all_conv)
  have nox: "toLowerCase (take 2 ds) \<noteq> ''0x''"
  proof (cases cs)
    case Nil
    then show ?thesis by (simp add: ds toLowerCase_def)
  next
    case (Cons d rest)
    then have "is_digit d" using assms(2) ds by simp
    then have "lower_char d \<noteq> CHR ''x''" using is_digit_not_space by blast
    then show ?thesis by (simp add: ds Cons toLowerCase_def)
  qed
  have hd: "hd ds \<noteq> CHR ''-''" "hd ds \<noteq> CHR ''+''"
    using is_digit_not_space [OF c] by (simp_all add: ds)
  show ?thesis
    by (simp add: parseInt_def dw assms(1) hd nox tw Let_def)
qed

lemma parseInt_show_nat: "parseInt (show_nat n) = Some (int n)"
  using parseInt_digits [of "show_nat n"] show_nat_digits [of n] digits_value_show_nat [of n]
  by simp


lemma parseInt_show_int: "parseInt (show_int i) = Some i"
proof (cases "i < 0")
  case False
  then show ?thesis using parseInt_show_nat [of "nat i"] by (simp add: show_int_def)
next
  case True
  let ?ds = "show_nat (nat (- i))"
  have ne: "?ds \<noteq> []" and dig: "\<forall>c \<in> set ?ds. is_digit c"
    using show_nat_digits [of "nat (- i)"] by simp_all
  have tw: "takeWhile is_digit ?ds = ?ds" using dig by (simp add: takeWhile_eq_all_conv)
  have nox: "toLowerCase (take 2 ?ds) \<noteq> ''0x''"
  proof (cases ?ds)
    case Nil
    then show ?thesis using ne by simp
  next
    case (Cons c cs)
    show ?thesis
    proof (cases cs)
      case Nil
      then show ?thesis using Cons by (simp add: toLowerCase_def)
    next
      case (Cons d rest)
      then have "is_digit d" using dig \<open>?ds = c # cs\<close> by simp
      then have "lower_char d \<noteq> CHR ''x''" using is_digit_not_space by blast
      then show ?thesis using Cons \<open>?ds = c # cs\<close> by (simp add: toLowerCase_def)
    qed
  qed
  have sp: "\<not> is_space CHR ''-''" by (simp add: is_space_def)
  show ?thesis
    using True ne
    by (simp add: show_int_def parseInt_def sp nox tw digits_value_show_nat Let_def)
qed

lemma at_concurrent_limit_show_int:
  "at_concurrent_limit C (Some (show_int v)) = (C \<le> v)"
proof -
  have "show_int v \<noteq> []" using show_nat_digits by (simp add: show_int_def)
  then show ?thesis by (simp add: at_concurrent_limit_def parseInt_show_int)
qed

lemma at_concurrent_limit_None: "at_concurrent_limit C None = False"
  by (simp add: at_concurrent_limit_def)

lemma keys_differ: "dailyKey c today \<noteq> concurrentKey c'"
  by (simp add: dailyKey_def concurrentKey_def)





text \<open>
  C2: if any counter-store operation that \<open>checkRateLimit\<close> invokes raises, the check
  returns true.
\<close>

theorem checkRateLimit_fail_open:
  "(\<exists>c. (c, False) \<in> set (snd (snd (checkRateLimit (logged R) DAILY_LIMIT CONCURRENT_LIMIT
                                        today clientId (w, [])))))
     \<longrightarrow> fst (checkRateLimit (logged R) DAILY_LIMIT CONCURRENT_LIMIT today clientId (w, []))"
  by (auto simp add: checkRateLimit_def checkRateLimit_body_def thenE_def returnE_def
      logged_simps succeeded_def Let_def split: prod.splits sum.splits if_splits)

theorem checkRateLimit_fail_open_witness:
  "(Decr (dailyKey ''tenant-1'' ''2025-08-21''), False)
     \<in> set (snd (snd (checkRateLimit (logged broken_decr) 50 3 ''2025-08-21'' ''tenant-1''
                         (at_daily_cap, [])))) \<and>
   fst (checkRateLimit (logged broken_decr) 50 3 ''2025-08-21'' ''tenant-1'' (at_daily_cap, []))"
proof -
  have called: "(Decr (dailyKey ''tenant-1'' ''2025-08-21''), False)
     \<in> set (snd (snd (checkRateLimit (logged broken_decr) 50 3 ''2025-08-21'' ''tenant-1''
                         (at_daily_cap, []))))"
    by (simp add: checkRateLimit_def checkRateLimit_body_def thenE_def returnE_def throwE_def
        logged_simps succeeded_def broken_decr_def memory_simps at_daily_cap_def Let_def
        dailyKey_def)
  with checkRateLimit_fail_open [of broken_decr 50 3 "''2025-08-21''" "''tenant-1''" at_daily_cap]
  show ?thesis by blast
qed

section \<open>The admission check on the in-memory store\<close>

text \<open>
  On the in-memory store the check admits exactly when the daily count after the
  increment is within the daily limit and the concurrency counter is absent or below the
  concurrency limit.
\<close>

lemma checkRateLimit_memory:
  "fst (checkRateLimit MemoryRateLimiter DAILY_LIMIT CONCURRENT_LIMIT today clientId st) =
     (counter_or_0 st (dailyKey clientId today) + 1 \<le> DAILY_LIMIT \<and>
      (case counters st (concurrentKey clientId) of
         None \<Rightarrow> True
       | Some used \<Rightarrow> used < CONCURRENT_LIMIT))"
  using keys_differ [of clientId today clientId]
  by (auto simp add: checkRateLimit_def checkRateLimit_body_def thenE_def returnE_def
      memory_simps Let_def at_concurrent_limit_show_int at_concurrent_limit_None
      split: option.splits)

section \<open>Properties of the cache keys\<close>

lemma length8: "length v = 8 \<Longrightarrow> \<exists>a b c d e f g h. v = [a, b, c, d, e, f, g, h]"
  by (simp add: numeral_eq_Suc length_Suc_conv) blast

lemma length_round256: "length v = 8 \<Longrightarrow> length (round256 v kw) = 8"
proof -
  assume "length v = 8"
  then obtain a b c d e f g h where v: "v = [a, b, c, d, e, f, g, h]"
    using length8 by blast
  show ?thesis by (cases kw) (simp add: v)
qed

lemma length_rounds: "length v = 8 \<Longrightarrow> length (foldl round256 v kws) = 8"
  by (induction kws arbitrary: v) (simp_all add: length_round256)

lemma length_compress: "length hs = 8 \<Longrightarrow> length (compress hs block) = 8"
  by (simp add: compress_def length_rounds)

lemma length_blocks: "length hs = 8 \<Longrightarrow> length (foldl compress hs bs) = 8"
  by (induction bs arbitrary: hs) (simp_all add: length_compress)

lemma length_sha256: "length (sha256 m) = 8"
  by (simp add: sha256_def length_blocks H256_def)

lemma length_hex32: "length (hex32 w) = 8"
  by (simp add: hex32_def)

lemma length_concat_hex32: "length (concat (map hex32 ws)) = 8 * length ws"
  by (induction ws) (simp_all add: length_hex32)

lemma length_sha256_hex: "length (sha256_hex s) = 64"
  by (simp add: sha256_hex_def length_concat_hex32 length_sha256)

lemma hex_digit_range: "n < 16 \<Longrightarrow> hex_digit n \<in> hex_chars"
  unfolding hex_digit_def hex_chars_def by (rule nth_mem) simp

lemma hex32_chars: "set (hex32 w) \<subseteq> hex_chars"
proof
  fix c assume "c \<in> set (hex32 w)"
  then have "c \<in> (\<lambda>i. hex_digit ((w div 16 ^ i) mod 16)) ` set [7, 6, 5, 4, 3, 2, 1, 0]"
    by (simp only: hex32_def set_map)
  then obtain i where c: "c = hex_digit ((w div 16 ^ i) mod 16)" by (rule imageE)
  have "hex_digit ((w div 16 ^ i) mod 16) \<in> hex_chars" by (rule hex_digit_range) simp
  then show "c \<in> hex_chars" using c by simp
qed

lemma sha256_hex_chars: "set (sha256_hex s) \<subseteq> hex_chars"
  using hex32_chars by (auto simp add: sha256_hex_def)

lemma special_not_hex: "CHR ''@'' \<notin> hex_chars \<and> CHR ''#'' \<notin> hex_chars"
  by (simp add: hex_chars_def)

lemma sched_extend_numeral:
  "sched_extend (numeral n) ws = sched_extend (pred_numeral n) (sched_next ws # ws)"
  by (simp add: numeral_eq_Suc)

lemma replicate_numeral: "replicate (numeral n) x = x # replicate (pred_numeral n) x"
  by (simp add: numeral_eq_Suc)

lemmas sha256_eval = sha256_hex_def sha256_def pad_def be64_def blocks.simps compress_def
  schedule_def sched_next_def sched_extend_numeral replicate_numeral K256_def H256_def ch_def
  maj_def bsig0_def bsig1_def ssig0_def ssig1_def rotr_def hex32_def hex_digit_def add32_def
  shr_def not32_def

text \<open>The test vector of FIPS 180-4 for the message \<open>abc\<close>.\<close>

lemma sha256_hex_abc:
  "sha256_hex ''abc'' = ''ba7816bf8f01cfea414140de5dae2223b00361a396177a9cb410ff61f20015ad''"
  by (simp add: sha256_eval)

lemma digest_kl: "take 16 (sha256_hex (the (stringify keyparams_kl))) = ''15cd086b747cf2c6''"
  by (simp add: keyparams_kl_def json_quote_def json_escape_def sha256_eval)

lemma digest_lk: "take 16 (sha256_hex (the (stringify keyparams_lk))) = ''f95f33a7d1f99591''"
  by (simp add: keyparams_lk_def json_quote_def json_escape_def sha256_eval)

lemma generateKey_Some:
  "stringify data = Some serial \<Longrightarrow>
   generateKey prefix namespace data
     = Inr (prefix @ '':'' @ namespace @ '':'' @ take 16 (sha256_hex serial))"
  by (simp add: generateKey_def)

lemma stringify_None: "(stringify v = None) = (v = JUndefined)"
  by (cases v) simp_all

lemma stringify_defined_part:
  "stringify (defined_part v) = stringify v"
  "stringify_elements (defined_elements xs) = stringify_elements xs"
  "stringify_properties (defined_properties ps) = stringify_properties ps"
proof (induction v and xs and ps rule: stringify_stringify_elements_stringify_properties.induct)
  case (9 x xs)
  then show ?case by (cases "x = JUndefined") simp_all
next
  case (11 k v ps)
  then show ?case by (cases "v = JUndefined") (simp_all add: stringify_None split: option.splits)
qed simp_all

lemma stringify_cong: "defined_part v = defined_part v' \<Longrightarrow> stringify v = stringify v'"
  using stringify_defined_part(1) [of v] stringify_defined_part(1) [of v'] by simp

text \<open>
  C5, as the code has it. For key parameters that \<open>JSON.stringify\<close> serialises, the key is
  the prefix, the namespace and a digest joined by colons; the digest is the first sixteen
  hexadecimal digits of the SHA-256 of the serialisation, so it has sixteen characters
  out of \<open>0123456789abcdef\<close>, and the key holds an \<open>@\<close> or a \<open>#\<close> exactly when the prefix
  or the namespace holds one. Key parameters that are equal up to properties whose value
  is \<open>undefined\<close>, the order of the properties kept, get the same key.
\<close>

theorem generateKey_form:
  assumes "stringify data = Some serial"
  shows "generateKey prefix namespace data
           = Inr (prefix @ '':'' @ namespace @ '':'' @ take 16 (sha256_hex serial)) \<and>
         length (take 16 (sha256_hex serial)) = 16 \<and>
         set (take 16 (sha256_hex serial)) \<subseteq> hex_chars \<and>
         (CHR ''@'' \<in> set (prefix @ '':'' @ namespace @ '':'' @ take 16 (sha256_hex serial)))
           = (CHR ''@'' \<in> set prefix \<or> CHR ''@'' \<in> set namespace) \<and>
         (CHR ''#'' \<in> set (prefix @ '':'' @ namespace @ '':'' @ take 16 (sha256_hex serial)))
           = (CHR ''#'' \<in> set prefix \<or> CHR ''#'' \<in> set namespace) \<and>
         (\<forall>data'. defined_part data' = defined_part data \<longrightarrow>
            generateKey prefix namespace data' = generateKey prefix namespace data)"
proof -
  let ?d = "take 16 (sha256_hex serial)"
  have len: "length ?d = 16" by (simp add: length_sha256_hex)
  have hex: "set ?d \<subseteq> hex_chars"
    using sha256_hex_chars [of serial] set_take_subset [of 16 "sha256_hex serial"] by blast
  have at: "CHR ''@'' \<notin> set ?d" using hex special_not_hex by blast
  have hash: "CHR ''#'' \<notin> set ?d" using hex special_not_hex by blast
  have at': "(CHR ''@'' \<in> set (prefix @ '':'' @ namespace @ '':'' @ ?d))
               = (CHR ''@'' \<in> set prefix \<or> CHR ''@'' \<in> set namespace)"
    using at by simp
  have hash': "(CHR ''#'' \<in> set (prefix @ '':'' @ namespace @ '':'' @ ?d))
               = (CHR ''#'' \<in> set prefix \<or> CHR ''#'' \<in> set namespace)"
    using hash by simp
  have key: "generateKey prefix namespace data = Inr (prefix @ '':'' @ namespace @ '':'' @ ?d)"
    using assms by (simp add: generateKey_def)
  have same: "\<forall>data'. defined_part data' = defined_part data \<longrightarrow>
            generateKey prefix namespace data' = generateKey prefix namespace data"
  proof (intro allI impI)
    fix data'
    assume "defined_part data' = defined_part data"
    then have "stringify data' = stringify data" by (rule stringify_cong)
    then show "generateKey prefix namespace data' = generateKey prefix namespace data"
      by (simp only: generateKey_def)
  qed
  show ?thesis using len hex at' hash' key same by (intro conjI)
qed

text \<open>
  The theorem at the key parameters of one search: the key, and the same key for the
  parameters with an \<open>undefined\<close> property between the two.
\<close>

theorem generateKey_form_witness:
  "generateKey ''cache'' ''JOB_SEARCH'' keyparams_kl = Inr ''cache:JOB_SEARCH:15cd086b747cf2c6'' \<and>
   generateKey ''cache'' ''JOB_SEARCH'' keyparams_kl_notes
     = Inr ''cache:JOB_SEARCH:15cd086b747cf2c6''"
proof -
  have s: "stringify keyparams_kl = Some (the (stringify keyparams_kl))"
    by (simp add: keyparams_kl_def)
  have d: "defined_part keyparams_kl_notes = defined_part keyparams_kl"
    by (simp add: keyparams_kl_notes_def keyparams_kl_def)
  note form = generateKey_form [OF s, of "''cache''" "''JOB_SEARCH''"]
  from form digest_kl
  have kl: "generateKey ''cache'' ''JOB_SEARCH'' keyparams_kl
              = Inr ''cache:JOB_SEARCH:15cd086b747cf2c6''" by simp
  from form d have "generateKey ''cache'' ''JOB_SEARCH'' keyparams_kl_notes
              = generateKey ''cache'' ''JOB_SEARCH'' keyparams_kl" by blast
  with kl show ?thesis by simp
qed

text \<open>
  C5 as stated fails twice. The first two values below are equal up to the order of their
  keys and get different keys. And the key of a namespace that holds an \<open>@\<close> and a \<open>#\<close>
  holds them as they are.
\<close>

theorem generateKey_counterexample:
  "canonical keyparams_kl = canonical keyparams_lk \<and>
   generateKey ''cache'' ''JOB_SEARCH'' keyparams_kl
     \<noteq> generateKey ''cache'' ''JOB_SEARCH'' keyparams_lk \<and>
   generateKey ''cache'' ''user@example.com#1'' keyparams_kl
     = Inr ''cache:user@example.com#1:15cd086b747cf2c6'' \<and>
   CHR ''@'' \<in> set ''cache:user@example.com#1:15cd086b747cf2c6'' \<and>
   CHR ''#'' \<in> set ''cache:user@example.com#1:15cd086b747cf2c6''"
proof -
  have c: "canonical keyparams_kl = canonical keyparams_lk"
    by (simp add: keyparams_kl_def keyparams_lk_def)
  have skl: "stringify keyparams_kl = Some (the (stringify keyparams_kl))"
    by (simp add: keyparams_kl_def)
  have slk: "stringify keyparams_lk = Some (the (stringify keyparams_lk))"
    by (simp add: keyparams_lk_def)
  have kl: "generateKey ''cache'' ''JOB_SEARCH'' keyparams_kl
              = Inr ''cache:JOB_SEARCH:15cd086b747cf2c6''"
    using generateKey_Some [OF skl, of "''cache''" "''JOB_SEARCH''"] digest_kl by simp
  have lk: "generateKey ''cache'' ''JOB_SEARCH'' keyparams_lk
              = Inr ''cache:JOB_SEARCH:f95f33a7d1f99591''"
    using generateKey_Some [OF slk, of "''cache''" "''JOB_SEARCH''"] digest_lk by simp
  have differ: "generateKey ''cache'' ''JOB_SEARCH'' keyparams_kl
     \<noteq> generateKey ''cache'' ''JOB_SEARCH'' keyparams_lk"
    using kl lk by simp
  have ns: "generateKey ''cache'' ''user@example.com#1'' keyparams_kl
     = Inr ''cache:user@example.com#1:15cd086b747cf2c6''"
    using generateKey_Some [OF skl, of "''cache''" "''user@example.com#1''"] digest_kl by simp
  have at: "CHR ''@'' \<in> set ''cache:user@example.com#1:15cd086b747cf2c6''" by simp
  have hash: "CHR ''#'' \<in> set ''cache:user@example.com#1:15cd086b747cf2c6''" by simp
  show ?thesis using c differ ns at hash by (intro conjI)
qed

section \<open>Properties of the cache service\<close>

lemma cache_get_never_raises:
  "generateKey (cs_prefix C) namespace keyData = Inr key \<Longrightarrow>
   fst (cache_get C namespace keyData w) \<noteq> Inl e"
  by (auto simp add: cache_get_def catchE_def thenE_def returnE_def throwE_def
      split: prod.splits sum.splits option.splits cached.splits if_splits)

lemma cache_set_never_raises:
  "generateKey (cs_prefix C) namespace keyData = Inr key \<Longrightarrow>
   fst (cache_set C namespace keyData val ttl w) \<noteq> Inl e"
  by (auto simp add: cache_set_def catchE_def thenE_def returnE_def throwE_def
      split: prod.splits sum.splits if_splits)

text \<open>
  C9: with the cache enabled and a key derived, an error raised by the backend is caught
  inside the service: a \<open>get\<close> whose backend call raises returns \<open>null\<close>, a \<open>set\<close> whose
  backend call raises returns normally, the backend is left as that one rejected call
  left it, and neither operation ever raises.
\<close>

theorem cache_backend_errors_caught:
  assumes "generateKey (cs_prefix C) namespace keyData = Inr key"
    and "cs_ENABLE_CACHE C \<noteq> Some ''false''"
  shows "(fst (cc_get (cs_client C) key w) = Inl e \<longrightarrow>
            cache_get C namespace keyData w = (Inr None, snd (cc_get (cs_client C) key w))) \<and>
         (cc_is_redis (cs_client C) \<and> cs_stringify C val = Inr serial \<and>
          fst (cc_setex (cs_client C) key (ttlSeconds ttl namespace) serial w) = Inl e \<longrightarrow>
            cache_set C namespace keyData val ttl w
              = (Inr (), snd (cc_setex (cs_client C) key (ttlSeconds ttl namespace) serial w))) \<and>
         (\<not> cc_is_redis (cs_client C) \<and>
          fst (cc_set (cs_client C) key val (ttlSeconds ttl namespace) w) = Inl e \<longrightarrow>
            cache_set C namespace keyData val ttl w
              = (Inr (), snd (cc_set (cs_client C) key val (ttlSeconds ttl namespace) w))) \<and>
         (\<forall>e'. fst (cache_get C namespace keyData w) \<noteq> Inl e') \<and>
         (\<forall>e'. fst (cache_set C namespace keyData val ttl w) \<noteq> Inl e')"
proof -
  have g: "fst (cc_get (cs_client C) key w) = Inl e \<longrightarrow>
            cache_get C namespace keyData w = (Inr None, snd (cc_get (cs_client C) key w))"
    using assms
    by (auto simp add: cache_get_def catchE_def thenE_def returnE_def split: prod.splits)
  have s1: "cc_is_redis (cs_client C) \<and> cs_stringify C val = Inr serial \<and>
          fst (cc_setex (cs_client C) key (ttlSeconds ttl namespace) serial w) = Inl e \<longrightarrow>
            cache_set C namespace keyData val ttl w
              = (Inr (), snd (cc_setex (cs_client C) key (ttlSeconds ttl namespace) serial w))"
    using assms
    by (auto simp add: cache_set_def catchE_def returnE_def split: prod.splits)
  have s2: "\<not> cc_is_redis (cs_client C) \<and>
          fst (cc_set (cs_client C) key val (ttlSeconds ttl namespace) w) = Inl e \<longrightarrow>
            cache_set C namespace keyData val ttl w
              = (Inr (), snd (cc_set (cs_client C) key val (ttlSeconds ttl namespace) w))"
    using assms
    by (auto simp add: cache_set_def catchE_def returnE_def split: prod.splits)
  show ?thesis
    using g s1 s2 cache_get_never_raises [OF assms(1)] cache_set_never_raises [OF assms(1)]
    by blast
qed

theorem cache_backend_errors_caught_witness:
  "cache_get outage_service ''JOB_SEARCH'' keyparams_kl () = (Inr None, ()) \<and>
   cache_set outage_service ''JOB_SEARCH'' keyparams_kl 7 None () = (Inr (), ())"
proof -
  have k: "generateKey (cs_prefix outage_service) ''JOB_SEARCH'' keyparams_kl
             = Inr (''cache:JOB_SEARCH:'' @ take 16 (sha256_hex (the (stringify keyparams_kl))))"
    by (simp add: outage_service_def generateKey_def keyparams_kl_def)
  have en: "cs_ENABLE_CACHE outage_service \<noteq> Some ''false''" by (simp add: outage_service_def)
  from cache_backend_errors_caught [OF k en, of "()" "OtherError ''ECONNREFUSED''" 7
      "show_nat 7" None]
  show ?thesis
    by (simp add: outage_service_def unreachable_cache_def throwE_def)
qed

section \<open>Properties of the research engine\<close>

lemmas io_defs = thenE_def returnE_def throwE_def catchE_def liftE_def

lemma topCompanies_two: "topCompanies [posting_success, posting_fail] =
   [(''Success Corp'', [posting_success]), (''Fail Corp'', [posting_fail])]"
  by (simp add: topCompanies_def group_by_company_def js_sort_by_def posting_success_def posting_fail_def)

lemma runDeepResearch_fail_corp:
  "runDeepResearch two_company_engine
     \<lparr> req_keywords = None, req_location = None, req_companyName = Some ''Fail Corp'',
       req_companyUrl = u, req_notes = n, req_clientId = None, req_userId = None \<rparr> w
   = (Inl (ExternalServiceError ''Research Engine''), w)"
  by (simp add: runDeepResearch_def truthy_def io_defs two_company_engine_def collect_unless_fail_def str_or_def)

lemma runDeepResearch_success_corp:
  "runDeepResearch two_company_engine
     \<lparr> req_keywords = None, req_location = None, req_companyName = Some ''Success Corp'',
       req_companyUrl = u, req_notes = n, req_clientId = None, req_userId = None \<rparr> w
   = (Inr \<lparr> res_jobId = ''anonymous'', res_model = Horsemen,
             res_summary = generateSummary success_findings,
             res_findings = Findings success_findings,
             res_meta = \<lparr> meta_keywords = None, meta_location = None, meta_notes = n \<rparr> \<rparr>, w)"
  by (simp add: runDeepResearch_def runHorsemenAnalysis_def truthy_def io_defs
      two_company_engine_def collect_unless_fail_def str_or_def Let_def success_findings_def
      success_context_def)

lemma two_company_hostname: "sv_hostname two_company_engine = simple_hostname"
  by (simp add: two_company_engine_def)

text \<open>An error of the research of one company ends the loop with that error.\<close>

lemma analyze_companies_first_failure:
  assumes "company_url S jobs' = Inr u"
    and "runDeepResearch S
           \<lparr> req_keywords = None, req_location = None, req_companyName = Some company,
             req_companyUrl = u,
             req_notes = Some (str_or notes [] @ '' Found '' @ show_nat (length jobs') @
                               '' relevant job postings''),
             req_clientId = None, req_userId = None \<rparr> w = (Inl e, w')"
  shows "analyze_companies S notes ((company, jobs') # rest) w = (Inl e, w')"
  using assms by (simp add: thenE_def liftE_def)

lemma analyze_companies_aborts: "analyze_companies two_company_engine None (topCompanies [posting_success, posting_fail]) w
     = (Inl (ExternalServiceError ''Research Engine''), w)"
  unfolding topCompanies_two
  by (simp add: io_defs company_url_def two_company_hostname simple_hostname_def posting_success_def
      posting_fail_def runDeepResearch_success_corp runDeepResearch_fail_corp)

text \<open>
  C4: a failure while collecting evidence for one company of a batch does not abort the
  batch. In the code the loop over the companies has no handler: with two candidate
  companies and evidence collection failing for the second, \<open>searchOpportunities\<close> raises
  \<open>ExternalServiceError('Research Engine')\<close> and returns no result.
\<close>

theorem searchOpportunities_aborts:
  "searchOpportunities two_company_engine request_partial cold_cache
     = (Inl (ExternalServiceError ''Research Engine''), cold_cache)"
proof -
  have jb: "sv_searchJobBoards two_company_engine k l = returnE [posting_success, posting_fail]" for k l
    by (simp add: two_company_engine_def)
  have miss: "cache_get (sv_cache two_company_engine) ''JOB_SEARCH'' k cold_cache = (Inr None, cold_cache)"
    if "stringify k \<noteq> None" for k
    using that
    by (auto simp add: cache_get_def two_company_engine_def memory_cache_service_def generateKey_def
        io_defs MemoryCache_def mc_get_def cold_cache_def)
  show ?thesis
    by (simp add: searchOpportunities_def request_partial_def truthy_def cacheKey_def miss jb analyze_companies_aborts
        thenE_def returnE_def)
qed


lemma stringify_cacheKey: "\<exists>serial. stringify (cacheKey request) = Some serial"
  by (simp add: cacheKey_def)

lemma cacheKey_cong:
  "req_keywords r2 = req_keywords r1 \<Longrightarrow> req_location r2 = req_location r1 \<Longrightarrow>
   cacheKey r2 = cacheKey r1"
  by (simp add: cacheKey_def)

lemma mc_fresh:
  assumes "ms < ttl * 1000"
  shows "mc_get key (elapse ms (snd (mc_set key v ttl w)))
           = (Inr (Some (CachedValue v)), elapse ms (snd (mc_set key v ttl w)))"
  using assms by (simp add: mc_get_def mc_set_def elapse_def Let_def)

text \<open>
  C10: the key of the search cache is derived from the keywords and the location only,
  and the cached result carries the client id of the request that computed it. On the
  in-memory backend with caching enabled: when a first request misses and returns a result,
  a second request with the same keywords and location, made less than the 1800 seconds
  of the entry's life later, returns that same result, whose \<open>jobId\<close> is the first
  requester's client id.
\<close>

theorem cached_result_crosses_tenants:
  assumes mem: "cs_client (sv_cache S) = MemoryCache"
    and en: "cs_ENABLE_CACHE (sv_cache S) \<noteq> Some ''false''"
    and kw: "truthy (req_keywords r1)"
    and same: "req_keywords r2 = req_keywords r1" "req_location r2 = req_location r1"
    and miss: "fst (cache_get (sv_cache S) ''JOB_SEARCH'' (cacheKey r1) w0) = Inr None"
    and first: "searchOpportunities S r1 w0 = (Inr res1, w1)"
    and fresh: "ms < 1800000"
  shows "searchOpportunities S r2 (elapse ms w1) = (Inr res1, elapse ms w1) \<and>
         res_jobId res1 = str_or (req_clientId r1) ''anonymous''"
proof -
  obtain serial where ser: "stringify (cacheKey r1) = Some serial"
    using stringify_cacheKey by blast
  define key where "key = cs_prefix (sv_cache S) @ '':'' @ ''JOB_SEARCH'' @ '':'' @ take 16 (sha256_hex serial)"
  have gk: "generateKey (cs_prefix (sv_cache S)) ''JOB_SEARCH'' (cacheKey r1) = Inr key"
    using ser by (simp add: generateKey_def key_def)
  have ck: "cacheKey r2 = cacheKey r1" using same by (rule cacheKey_cong)
  have set_eq: "cache_set (sv_cache S) ''JOB_SEARCH'' (cacheKey r1) v None w
                  = (Inr (), snd (mc_set key v 1800 w))" for v w
    using en gk mem
    by (simp add: cache_set_def MemoryCache_def catchE_def returnE_def mc_set_def ttlSeconds_def
        TTL_def Let_def)
  obtain w' where shape: "w1 = snd (mc_set key res1 1800 w')"
    and jid: "res_jobId res1 = str_or (req_clientId r1) ''anonymous''"
    using first miss kw
    by (auto simp add: searchOpportunities_def thenE_def returnE_def throwE_def set_eq Let_def
        split: prod.splits sum.splits option.splits if_splits)
  have hit: "cache_get (sv_cache S) ''JOB_SEARCH'' (cacheKey r1) (elapse ms w1)
               = (Inr (Some res1), elapse ms w1)"
    using en gk mem fresh mc_fresh [of ms 1800 key res1 w']
    by (simp add: cache_get_def MemoryCache_def catchE_def thenE_def returnE_def shape)
  have "searchOpportunities S r2 (elapse ms w1) = (Inr res1, elapse ms w1)"
    using kw same hit by (simp add: searchOpportunities_def ck thenE_def returnE_def)
  then show ?thesis using jid by simp
qed


lemma runDeepResearch_success_corp_one:
  "runDeepResearch one_company_engine
     \<lparr> req_keywords = None, req_location = None, req_companyName = Some ''Success Corp'',
       req_companyUrl = u, req_notes = n, req_clientId = None, req_userId = None \<rparr> w
   = (Inr \<lparr> res_jobId = ''anonymous'', res_model = Horsemen,
             res_summary = generateSummary success_findings,
             res_findings = Findings success_findings,
             res_meta = \<lparr> meta_keywords = None, meta_location = None, meta_notes = n \<rparr> \<rparr>, w)"
  by (simp add: runDeepResearch_def runHorsemenAnalysis_def truthy_def io_defs
      one_company_engine_def two_company_engine_def collect_unless_fail_def str_or_def Let_def
      success_findings_def success_context_def)

lemma topCompanies_one: "topCompanies [posting_success] = [(''Success Corp'', [posting_success])]"
  by (simp add: topCompanies_def group_by_company_def js_sort_by_def posting_success_def)

lemma analyze_one:
  "\<exists>fs. analyze_companies one_company_engine None (topCompanies [posting_success]) w = (Inr fs, w)"
  unfolding topCompanies_one
  by (simp add: io_defs company_url_def one_company_engine_def [THEN arg_cong, of sv_hostname]
      two_company_engine_def [THEN arg_cong, of sv_hostname]
      simple_hostname_def posting_success_def runDeepResearch_success_corp_one)

theorem cached_result_crosses_tenants_witness:
  "req_clientId request_tenant_b \<noteq> req_clientId request_tenant_a \<and>
   res_jobId (projr (fst (searchOpportunities one_company_engine request_tenant_b
       (elapse 60000 (snd (searchOpportunities one_company_engine request_tenant_a cold_cache))))))
     = ''tenant-a''"
proof -
  let ?S = one_company_engine
  let ?first = "searchOpportunities ?S request_tenant_a cold_cache"
  have mem: "cs_client (sv_cache ?S) = MemoryCache"
    and en: "cs_ENABLE_CACHE (sv_cache ?S) \<noteq> Some ''false''"
    by (simp_all add: one_company_engine_def two_company_engine_def memory_cache_service_def)
  have kw: "truthy (req_keywords request_tenant_a)"
    and same: "req_keywords request_tenant_b = req_keywords request_tenant_a"
      "req_location request_tenant_b = req_location request_tenant_a"
    and differ: "req_clientId request_tenant_b \<noteq> req_clientId request_tenant_a"
    by (simp_all add: request_tenant_a_def request_tenant_b_def truthy_def)
  have miss: "cache_get (sv_cache ?S) ''JOB_SEARCH'' (cacheKey request_tenant_a) cold_cache
                = (Inr None, cold_cache)"
    by (simp add: cache_get_def one_company_engine_def two_company_engine_def
        memory_cache_service_def generateKey_def cacheKey_def io_defs MemoryCache_def mc_get_def
        cold_cache_def)
  have jb: "sv_searchJobBoards ?S k l = returnE [posting_success]" for k l
    by (simp add: one_company_engine_def)
  obtain fs where an: "analyze_companies ?S None (topCompanies [posting_success]) cold_cache
                         = (Inr fs, cold_cache)"
    using analyze_one by blast
  have nn: "req_notes request_tenant_a = None" by (simp add: request_tenant_a_def)
  have "\<exists>r w. ?first = (Inr r, w)"
    using kw miss an
    by (simp add: searchOpportunities_def jb nn thenE_def returnE_def Let_def
        cache_set_def one_company_engine_def [THEN arg_cong, of sv_cache]
        two_company_engine_def [THEN arg_cong, of sv_cache] memory_cache_service_def
        generateKey_def cacheKey_def catchE_def MemoryCache_def mc_set_def split: prod.splits)
  then have first: "?first = (Inr (projr (fst ?first)), snd ?first)" by auto
  have m: "fst (cache_get (sv_cache ?S) ''JOB_SEARCH'' (cacheKey request_tenant_a) cold_cache)
             = Inr None"
    using miss by simp
  from cached_result_crosses_tenants [OF mem en kw same m first, of 60000] differ
  show ?thesis by (simp add: request_tenant_a_def str_or_def)
qed

section \<open>Properties of the research endpoint\<close>

lemma request_search_valid: "schema_ok observed_app request_search"
  by (simp add: schema_ok_def observed_app_def request_search_def optional_ok_def truthy_def
      looks_like_uuid_def is_hex_digit_def is_digit_def lower_char_def)

lemma request_search_admitted:
  "checkRateLimit observed_limiter 50 3 ''2025-08-21'' ''550e8400-e29b-41d4-a716-446655440000'' fresh_world
     = (True, w_admitted)"
  by (simp add: checkRateLimit_def checkRateLimit_body_def io_defs observed_limiter_def on_limiter_def
      memory_simps fresh_world_def flushed_def at_concurrent_limit_def succeeded_def w_admitted_def
      dailyKey_def concurrentKey_def Let_def)

lemma runDeepResearch_observed:
  "runDeepResearch observed_services
     \<lparr> req_keywords = None, req_location = None, req_companyName = Some ''Success Corp'',
       req_companyUrl = u, req_notes = n, req_clientId = None, req_userId = None \<rparr> w
   = (Inr \<lparr> res_jobId = ''anonymous'', res_model = Horsemen,
             res_summary = generateSummary success_findings,
             res_findings = Findings success_findings,
             res_meta = \<lparr> meta_keywords = None, meta_location = None, meta_notes = n \<rparr> \<rparr>,
      w\<lparr>w_events := w_events w @ [EvidenceCollection ''Success Corp'']\<rparr>)"
  by (simp add: runDeepResearch_def runHorsemenAnalysis_def truthy_def io_defs
      observed_services_def observe_def collect_unless_fail_def str_or_def Let_def
      success_findings_def success_context_def)

lemma analyze_companies_observed:
  "\<exists>fs. analyze_companies observed_services None (topCompanies [posting_success]) w
     = (Inr fs, w\<lparr>w_events := w_events w @ [EvidenceCollection ''Success Corp'']\<rparr>)"
  unfolding topCompanies_one
  by (simp add: io_defs company_url_def observed_services_def [THEN arg_cong, of sv_hostname]
      simple_hostname_def posting_success_def runDeepResearch_observed)

lemma searchOpportunities_observed:
  "\<exists>r w2. searchOpportunities observed_services request_search w_admitted = (Inr r, w2) \<and>
     w_events w2 = w_events w_admitted @ [JobBoardSearch ''data entry'', EvidenceCollection ''Success Corp''] \<and>
     w_limiter w2 = w_limiter w_admitted"
proof -
  have miss: "cache_get (sv_cache observed_services) ''JOB_SEARCH'' (cacheKey request_search) w_admitted
                = (Inr None, w_admitted)"
    by (simp add: cache_get_def observed_services_def observed_cache_def on_cache_def
        generateKey_def cacheKey_def io_defs mc_get_def cold_cache_def w_admitted_def)
  have jb: "sv_searchJobBoards observed_services k l = observe (JobBoardSearch k) (Inr [posting_success])" for k l
    by (simp add: observed_services_def)
  let ?w1 = "w_admitted\<lparr>w_events := w_events w_admitted @ [JobBoardSearch ''data entry'']\<rparr>"
  obtain fs where an: "analyze_companies observed_services None (topCompanies [posting_success]) ?w1
     = (Inr fs, ?w1\<lparr>w_events := w_events ?w1 @ [EvidenceCollection ''Success Corp'']\<rparr>)"
    using analyze_companies_observed by blast
  have nn: "req_notes request_search = None" "req_keywords request_search = Some ''data entry''"
    by (simp_all add: request_search_def)
  show ?thesis
    using miss an
    by (simp add: searchOpportunities_def jb nn truthy_def thenE_def returnE_def Let_def observe_def
        cache_set_def observed_services_def [THEN arg_cong, of sv_cache] observed_cache_def
        on_cache_def generateKey_def cacheKey_def catchE_def mc_set_def split: prod.splits)
qed

text \<open>
  C3: the handler acquires the tenant's concurrency slot before the expensive work and
  releases it on every exit path. The handler calls \<open>checkRateLimit\<close> and then the engine;
  it calls neither \<open>incrementConcurrent\<close> nor \<open>decrementConcurrent\<close>. For an admitted
  search on the in-memory stores, the calls made are the three of the admission check,
  then the job board search and the evidence collection; the concurrency key is never
  incremented and is absent when the request completes.
\<close>

theorem POST_never_acquires_slot:
  "(\<exists>result. fst (POST observed_app (Inr request_search) fresh_world) = Success result) \<and>
   w_events (snd (POST observed_app (Inr request_search) fresh_world))
     = [LimiterCall (Incr (dailyKey ''550e8400-e29b-41d4-a716-446655440000'' ''2025-08-21'')) True,
        LimiterCall (Expire (dailyKey ''550e8400-e29b-41d4-a716-446655440000'' ''2025-08-21'') 86400) True,
        LimiterCall (Get (concurrentKey ''550e8400-e29b-41d4-a716-446655440000'')) True,
        JobBoardSearch ''data entry'',
        EvidenceCollection ''Success Corp''] \<and>
   counters (w_limiter (snd (POST observed_app (Inr request_search) fresh_world)))
     (concurrentKey ''550e8400-e29b-41d4-a716-446655440000'') = None"
proof -
  obtain r w2 where run: "searchOpportunities observed_services request_search w_admitted = (Inr r, w2)"
    and ev: "w_events w2 = w_events w_admitted @
               [JobBoardSearch ''data entry'', EvidenceCollection ''Success Corp'']"
    and lim: "w_limiter w2 = w_limiter w_admitted"
    using searchOpportunities_observed by blast
  have fields: "req_clientId request_search = Some ''550e8400-e29b-41d4-a716-446655440000''"
    "truthy (req_keywords request_search)" "\<not> truthy (req_companyName request_search)"
    "\<not> truthy (req_companyUrl request_search)"
    by (simp_all add: request_search_def truthy_def)
  have app: "app_rateLimiter observed_app = observed_limiter" "app_DAILY_LIMIT observed_app = 50"
    "app_CONCURRENT_LIMIT observed_app = 3" "app_services observed_app = observed_services"
    by (simp_all add: observed_app_def)
  have today: "sv_today observed_services = ''2025-08-21''" by (simp add: observed_services_def)
  have post: "POST observed_app (Inr request_search) fresh_world = (Success r, w2)"
    using request_search_valid request_search_admitted run
    by (simp add: POST_def POST_body_def thenE_def liftE_def fields app today str_or_def)
  show ?thesis
    by (simp add: post ev lim w_admitted_def dailyKey_def concurrentKey_def)
qed

end
